theory Spec2Isabelle
  imports Complex_Main
begin

section \<open>The humidex sensor of \<^verbatim>\<open>custom_components/humidex_sensor/sensor.py\<close>\<close>

text \<open>
  The sensor derives a humidex value from a temperature and a humidity reading, and from
  an atmospheric pressure reading when one is configured. This theory embeds the class
  \<^verbatim>\<open>HumidexSensor\<close>: its pure helpers, the attributes it reports and the update
  \<^verbatim>\<open>_async_update_humidex\<close>. Each definition keeps the name of the method it
  embeds, without the leading underscore.

  Python floats are modelled as real numbers: arithmetic is exact, there is no rounding
  to the nearest double and no overflow. A division whose divisor is not a constant
  raises \<^verbatim>\<open>ZeroDivisionError\<close> on zero, and the model returns that error as a value.

  The value computed over the reals and the value computed in doubles can differ by one
  tenth after the final rounding, when the humidex lies next to a tie. The calculation
  is therefore embedded a second time, in double precision, in a section of its own, and
  what holds of the computed value for every input is stated of that embedding.
\<close>

subsection \<open>Constants\<close>

text \<open>\<^verbatim>\<open>const.py\<close>: the domain, which names the translation keys.\<close>

definition DOMAIN :: string where
  "DOMAIN = ''humidex_sensor''"

text \<open>
  Home Assistant's \<^verbatim>\<open>UnitOfTemperature\<close>: the degree sign (code point 176) followed
  by a letter.
\<close>

definition UnitOfTemperature_CELSIUS :: string where
  "UnitOfTemperature_CELSIUS = [CHR 0xB0, CHR ''C'']"

definition UnitOfTemperature_FAHRENHEIT :: string where
  "UnitOfTemperature_FAHRENHEIT = [CHR 0xB0, CHR ''F'']"

subsection \<open>Comfort level\<close>

definition get_comfort_level :: "real \<Rightarrow> string" where
  "get_comfort_level humidex =
     (if humidex < 20 then ''cold''
      else if humidex \<le> 29 then ''comfortable''
      else if humidex \<le> 39 then ''slightly_uncomfortable''
      else if humidex \<le> 45 then ''very_uncomfortable''
      else ''dangerous'')"

subsection \<open>Temperature conversion\<close>

text \<open>
  Modelled from the spec: \<^verbatim>\<open>TemperatureConverter.convert\<close> from Fahrenheit to
  Celsius belongs to Home Assistant and is not among the sources; the spec gives it as
  the affine conversion \<open>C = (F - 32) * 5/9\<close>.
\<close>

definition TemperatureConverter_convert_F_to_C :: "real \<Rightarrow> real" where
  "TemperatureConverter_convert_F_to_C fahrenheit = (fahrenheit - 32) * 5 / 9"

definition convert_temperature_to_celsius :: "real \<Rightarrow> string \<Rightarrow> real" where
  "convert_temperature_to_celsius temperature unit =
     (if unit = UnitOfTemperature_FAHRENHEIT
      then TemperatureConverter_convert_F_to_C temperature
      else temperature)"

subsection \<open>Vapour pressure\<close>

datatype error = ZeroDivisionError

definition calculate_dew_point :: "real \<Rightarrow> real \<Rightarrow> real" where
  "calculate_dew_point temperature humidity = temperature - ((100 - humidity) / 5)"

definition calculate_vapor_pressure_standard :: "real \<Rightarrow> real \<Rightarrow> error + real" where
  "calculate_vapor_pressure_standard temperature humidity =
     (let dew_point = calculate_dew_point temperature humidity
      in if dew_point + 273.15 = 0 then Inl ZeroDivisionError
         else
           let exponent = 5417.7530 * ((1 / 273.15) - (1 / (dew_point + 273.15)));
               vapor_pressure = 6.11 * exp exponent
           in Inr vapor_pressure)"

definition calculate_vapor_pressure_enhanced :: "real \<Rightarrow> real \<Rightarrow> real \<Rightarrow> error + real" where
  "calculate_vapor_pressure_enhanced temperature humidity pressure =
     (if temperature + 237.3 = 0 then Inl ZeroDivisionError
      else
        let es = 6.1078 * exp ((17.27 * temperature) / (temperature + 237.3));
            e = (humidity / 100.0) * es;
            e_corrected = e * (pressure / 1013.25)
        in Inr e_corrected)"

subsection \<open>Rounding\<close>

text \<open>
  Python's \<^verbatim>\<open>round(x, ndigits)\<close>: the nearest multiple of \<open>10 ^ -ndigits\<close>, a tie
  going to the even one.
\<close>

definition round_half_even :: "real \<Rightarrow> int" where
  "round_half_even y =
     (let f = \<lfloor>y\<rfloor>; r = y - of_int f
      in if r < 1 / 2 then f
         else if 1 / 2 < r then f + 1
         else if even f then f else f + 1)"

definition py_round :: "real \<Rightarrow> nat \<Rightarrow> real" where
  "py_round x ndigits = of_int (round_half_even (x * 10 ^ ndigits)) / 10 ^ ndigits"

subsection \<open>Logging\<close>

text \<open>
  One constructor for each call of the module's logger, carrying the arguments of the
  call. The text of a caught exception is left out of the two error messages that
  print it.
\<close>

datatype log_level = DEBUG | WARNING | ERROR

datatype log_message =
    Initialized string string string "string option"
  | Temperature_entity_not_found string
  | Humidity_entity_not_found string
  | Temperature_entity_is string string
  | Humidity_entity_is string string
  | Pressure_entity_is string string
  | Invalid_numeric_values string string string
  | Temperature_outside_valid_range real
  | Humidity_outside_valid_range real
  | Pressure_outside_valid_range real
  | Calculated_humidex real string real real "real option"
  | Error_calculating_humidex error

type_synonym log_record = "log_level \<times> log_message"

subsection \<open>Range validation\<close>

text \<open>The result of \<^verbatim>\<open>_validate_sensor_values\<close>, with the warning it logs.\<close>

definition validate_sensor_values :: "real \<Rightarrow> real \<Rightarrow> real option \<Rightarrow> bool \<times> log_record list" where
  "validate_sensor_values temperature humidity pressure =
     (if \<not> (-50 \<le> temperature \<and> temperature \<le> 70)
      then (False, [(WARNING, Temperature_outside_valid_range temperature)])
      else if \<not> (0 \<le> humidity \<and> humidity \<le> 100)
      then (False, [(WARNING, Humidity_outside_valid_range humidity)])
      else
        (case pressure of
           None \<Rightarrow> (True, [])
         | Some p \<Rightarrow>
             if \<not> (800 \<le> p \<and> p \<le> 1200)
             then (False, [(WARNING, Pressure_outside_valid_range p)])
             else (True, [])))"

subsection \<open>The sensor and its surroundings\<close>

text \<open>
  A state of Home Assistant's state machine: the state string and the attributes.
  \<^verbatim>\<open>hass.states.get\<close> is a map from entity ids to states.
\<close>

record State =
  state :: string
  attributes :: "string \<rightharpoonup> string"

text \<open>What the entity exposes when its state is written.\<close>

record ha_state =
  native_value :: "real option"
  available :: bool
  state_attributes :: "(string \<times> string) list"

text \<open>
  The fields of \<^verbatim>\<open>HumidexSensor\<close> that the update reads or writes, and the two
  channels of its effects: the records sent to the logger and the states written to
  Home Assistant, oldest first.
\<close>

record HumidexSensor =
  temp_entity_id :: string
  humidity_entity_id :: string
  pressure_entity_id :: "string option"
  attr_name :: string
  attr_native_value :: "real option"
  attr_available :: bool
  attr_translations :: "(string \<times> string) list option"
  logged :: "log_record list"
  written :: "ha_state list"

definition emit :: "log_level \<Rightarrow> log_message \<Rightarrow> HumidexSensor \<Rightarrow> HumidexSensor" where
  "emit level message self = self\<lparr>logged := logged self @ [(level, message)]\<rparr>"

text \<open>
  \<^verbatim>\<open>__init__\<close>. The availability flag is not set there: it starts at the default of
  Home Assistant's entity class, which is true.
\<close>

definition HumidexSensor_init :: "string \<Rightarrow> string \<Rightarrow> string \<Rightarrow> string option \<Rightarrow> HumidexSensor" where
  "HumidexSensor_init name temp_id humidity_id pressure_id =
     \<lparr>temp_entity_id = temp_id,
      humidity_entity_id = humidity_id,
      pressure_entity_id = pressure_id,
      attr_name = name,
      attr_native_value = None,
      attr_available = True,
      attr_translations = None,
      logged = [(DEBUG, Initialized name temp_id humidity_id pressure_id)],
      written = []\<rparr>"

text \<open>Truth value of an optional string: \<^verbatim>\<open>None\<close> and the empty string are false.\<close>

definition truthy :: "string option \<Rightarrow> bool" where
  "truthy v = (case v of None \<Rightarrow> False | Some s \<Rightarrow> s \<noteq> [])"

subsection \<open>Reported attributes\<close>

definition fallback_descriptions :: "(string \<times> string) list" where
  "fallback_descriptions =
     [(''cold'', ''Cold''),
      (''comfortable'', ''Comfortable''),
      (''slightly_uncomfortable'', ''Slightly uncomfortable''),
      (''very_uncomfortable'', ''Very uncomfortable''),
      (''dangerous'', ''Dangerous'')]"

definition get_comfort_description_sync :: "HumidexSensor \<Rightarrow> real \<Rightarrow> string" where
  "get_comfort_description_sync self humidex =
     (let comfort_level = get_comfort_level humidex;
          translated =
            (case attr_translations self of
               None \<Rightarrow> None
             | Some tr \<Rightarrow>
                 if tr = [] then None
                 else map_of tr (''component.'' @ DOMAIN
                   @ ''.entity.sensor.humidex.state_attributes.comfort_description.''
                   @ comfort_level))
      in if truthy translated then the translated
         else (case map_of fallback_descriptions comfort_level of
                 Some d \<Rightarrow> d
               | None \<Rightarrow> ''Unknown''))"

text \<open>The dictionary of \<^verbatim>\<open>extra_state_attributes\<close>, in the order of its insertions.\<close>

definition extra_state_attributes :: "HumidexSensor \<Rightarrow> (string \<times> string) list" where
  "extra_state_attributes self =
     [(''temperature_entity'', temp_entity_id self),
      (''humidity_entity'', humidity_entity_id self)]
     @ (if truthy (pressure_entity_id self)
        then [(''pressure_entity'', the (pressure_entity_id self)),
              (''calculation_method'', ''enhanced'')]
        else [(''calculation_method'', ''standard'')])
     @ (case attr_native_value self of
          None \<Rightarrow> []
        | Some v \<Rightarrow>
            [(''comfort_level'', get_comfort_level v),
             (''comfort_description'', get_comfort_description_sync self v)])"

text \<open>
  Modelled from the spec: \<^verbatim>\<open>async_write_ha_state\<close> belongs to Home Assistant and is not
  among the sources. The spec has the publisher receive the derived value, its
  availability and the extra attributes; the model appends them to the written states.
\<close>

definition async_write_ha_state :: "HumidexSensor \<Rightarrow> HumidexSensor" where
  "async_write_ha_state self =
     self\<lparr>written := written self @
       [\<lparr>native_value = attr_native_value self,
         available = attr_available self,
         state_attributes = extra_state_attributes self\<rparr>]\<rparr>"

subsection \<open>The update\<close>

text \<open>
  The three statements of every early return of \<^verbatim>\<open>_async_update_humidex\<close>: clear the
  value, clear the availability flag, write the state.
\<close>

definition set_unavailable :: "HumidexSensor \<Rightarrow> HumidexSensor" where
  "set_unavailable self =
     async_write_ha_state (self\<lparr>attr_native_value := None, attr_available := False\<rparr>)"

text \<open>The test \<^verbatim>\<open>state in ("unavailable", "unknown")\<close>.\<close>

definition unavailable_or_unknown :: "string \<Rightarrow> bool" where
  "unavailable_or_unknown s = (s \<in> set [''unavailable'', ''unknown''])"

text \<open>
  Lines 307 to 313, the inner \<^verbatim>\<open>try\<close>: the three conversions by \<^verbatim>\<open>float\<close>, in the
  source's order. \<^verbatim>\<open>float\<close> is a parameter: a function from strings to numbers that
  returns \<open>None\<close> where Python raises \<^verbatim>\<open>ValueError\<close>. The result is \<open>None\<close> when one
  of the conversions raises.

  \<^verbatim>\<open>float\<close> also reads the spellings of infinity and of NaN. A float that is not
  finite fails every comparison of \<^verbatim>\<open>_validate_sensor_values\<close>, before and after the
  conversion from Fahrenheit, as a real number outside all three ranges does; a
  function given as \<^verbatim>\<open>float\<close> stands for Python's when it sends such a spelling to
  a real number of that kind.
\<close>

definition parse_values ::
  "(string \<Rightarrow> real option) \<Rightarrow> State \<Rightarrow> State \<Rightarrow> State option \<Rightarrow> (real \<times> real \<times> real option) option" where
  "parse_values float temp_state humidity_state pressure_state =
     (case float (state temp_state) of
        None \<Rightarrow> None
      | Some temperature_raw \<Rightarrow>
          (case float (state humidity_state) of
             None \<Rightarrow> None
           | Some humidity \<Rightarrow>
               (case pressure_state of
                  None \<Rightarrow> Some (temperature_raw, humidity, None)
                | Some ps \<Rightarrow>
                    if \<not> unavailable_or_unknown (state ps)
                    then (case float (state ps) of
                            None \<Rightarrow> None
                          | Some pressure \<Rightarrow> Some (temperature_raw, humidity, Some pressure))
                    else Some (temperature_raw, humidity, None))))"

text \<open>
  Lines 334 to 348: the vapour pressure by the method the pressure selects, the humidex
  formula and the rounding. The result is the rounded value with the name of the method.
\<close>

definition calculate_humidex :: "real \<Rightarrow> real \<Rightarrow> real option \<Rightarrow> error + (real \<times> string)" where
  "calculate_humidex temperature humidity pressure =
     (case (case pressure of
              Some p \<Rightarrow>
                (case calculate_vapor_pressure_enhanced temperature humidity p of
                   Inl err \<Rightarrow> Inl err
                 | Inr vapor_pressure \<Rightarrow> Inr (vapor_pressure, ''enhanced''))
            | None \<Rightarrow>
                (case calculate_vapor_pressure_standard temperature humidity of
                   Inl err \<Rightarrow> Inl err
                 | Inr vapor_pressure \<Rightarrow> Inr (vapor_pressure, ''standard''))) of
        Inl err \<Rightarrow> Inl err
      | Inr (vapor_pressure, calculation_method) \<Rightarrow>
          let humidex = temperature + 0.5555 * (vapor_pressure - 10)
          in Inr (py_round humidex 1, calculation_method))"

text \<open>
  Line 324: the unit of the temperature reading, Celsius when the state declares none.
\<close>

definition temperature_unit :: "State \<Rightarrow> string" where
  "temperature_unit temp_state =
     (case attributes temp_state ''unit_of_measurement'' of
        Some u \<Rightarrow> u
      | None \<Rightarrow> UnitOfTemperature_CELSIUS)"

text \<open>
  Lines 323 to 363: unit conversion, validation, calculation and the final write. An
  exception of the calculation reaches the outer handler, which logs it, clears value
  and flag and falls through to the final write.
\<close>

definition publish_humidex ::
  "State \<Rightarrow> real \<Rightarrow> real \<Rightarrow> real option \<Rightarrow> HumidexSensor \<Rightarrow> HumidexSensor" where
  "publish_humidex temp_state temperature_raw humidity pressure self =
     (let temp_unit = temperature_unit temp_state;
          temperature = convert_temperature_to_celsius temperature_raw temp_unit;
          (valid, warnings) = validate_sensor_values temperature humidity pressure;
          self1 = self\<lparr>logged := logged self @ warnings\<rparr>
      in if \<not> valid then set_unavailable self1
         else
           (case calculate_humidex temperature humidity pressure of
              Inl err \<Rightarrow> set_unavailable (emit ERROR (Error_calculating_humidex err) self1)
            | Inr (value, calculation_method) \<Rightarrow>
                async_write_ha_state
                  (emit DEBUG
                     (Calculated_humidex value calculation_method temperature humidity
                        (case pressure of
                           None \<Rightarrow> None
                         | Some p \<Rightarrow> if p \<noteq> 0 then Some p else None))
                     (self1\<lparr>attr_native_value := Some value, attr_available := True\<rparr>))))"

text \<open>
  Lines 268 to 270: the pressure state is fetched only when a pressure entity is
  configured.
\<close>

definition fetch_pressure_state :: "(string \<rightharpoonup> State) \<Rightarrow> HumidexSensor \<Rightarrow> State option" where
  "fetch_pressure_state states self =
     (if truthy (pressure_entity_id self)
      then states (the (pressure_entity_id self))
      else None)"

text \<open>
  Lines 301 to 305: a pressure state that is unavailable or unknown is logged and
  dropped. The result is the sensor with its log and the pressure state that remains.
\<close>

definition check_pressure_state :: "State option \<Rightarrow> HumidexSensor \<Rightarrow> HumidexSensor \<times> State option" where
  "check_pressure_state pressure_state self =
     (if truthy (pressure_entity_id self) \<and> pressure_state \<noteq> None
         \<and> unavailable_or_unknown (state (the pressure_state))
      then (emit WARNING
              (Pressure_entity_is (the (pressure_entity_id self)) (state (the pressure_state)))
              self,
            None)
      else (self, pressure_state))"

text \<open>
  Lines 307 to 363: the conversions by \<^verbatim>\<open>float\<close> with their handler, then the rest
  of the update.
\<close>

definition evaluate_readings ::
  "(string \<Rightarrow> real option) \<Rightarrow> State \<Rightarrow> State \<Rightarrow> State option \<Rightarrow> HumidexSensor \<Rightarrow> HumidexSensor" where
  "evaluate_readings float temp_state humidity_state pressure_state self =
     (case parse_values float temp_state humidity_state pressure_state of
        None \<Rightarrow>
          set_unavailable
            (emit ERROR
               (Invalid_numeric_values (state temp_state) (state humidity_state)
                  (case pressure_state of
                     None \<Rightarrow> ''N/A''
                   | Some ps \<Rightarrow> state ps))
               self)
      | Some (temperature_raw, humidity, pressure) \<Rightarrow>
          publish_humidex temp_state temperature_raw humidity pressure self)"

text \<open>
  \<^verbatim>\<open>_async_update_humidex\<close>, given \<^verbatim>\<open>float\<close> and the states of Home Assistant.
\<close>

definition async_update_humidex ::
  "(string \<Rightarrow> real option) \<Rightarrow> (string \<rightharpoonup> State) \<Rightarrow> HumidexSensor \<Rightarrow> HumidexSensor" where
  "async_update_humidex float states self =
     (let temp_state = states (temp_entity_id self);
          humidity_state = states (humidity_entity_id self);
          pressure_state = fetch_pressure_state states self
      in case temp_state of
           None \<Rightarrow>
             set_unavailable
               (emit WARNING (Temperature_entity_not_found (temp_entity_id self)) self)
         | Some ts \<Rightarrow>
        (case humidity_state of
           None \<Rightarrow>
             set_unavailable
               (emit WARNING (Humidity_entity_not_found (humidity_entity_id self)) self)
         | Some hs \<Rightarrow>
             if unavailable_or_unknown (state ts)
             then set_unavailable
               (emit WARNING (Temperature_entity_is (temp_entity_id self) (state ts)) self)
             else if unavailable_or_unknown (state hs)
             then set_unavailable
               (emit WARNING (Humidity_entity_is (humidity_entity_id self) (state hs)) self)
             else
               let (self1, pressure_state1) = check_pressure_state pressure_state self
               in evaluate_readings float ts hs pressure_state1 self1))"

subsection \<open>A parser for concrete readings\<close>

text \<open>
  The theorems below hold for every function given as \<^verbatim>\<open>float\<close>. Concrete runs use
  this one, which reads a non-empty string of decimal digits as \<^verbatim>\<open>float\<close> does and
  returns \<open>None\<close> on every other string. It stands for \<^verbatim>\<open>float\<close> on the strings
  used here only: digit strings and strings such as \<^verbatim>\<open>abc\<close> that Python rejects.
\<close>

definition digit_value :: "char \<Rightarrow> nat option" where
  "digit_value c =
     (let code = (of_char c :: nat)
      in if 48 \<le> code \<and> code \<le> 57 then Some (code - 48) else None)"

fun digits_value :: "nat \<Rightarrow> string \<Rightarrow> nat option" where
  "digits_value acc [] = Some acc"
| "digits_value acc (c # cs) =
     (case digit_value c of
        None \<Rightarrow> None
      | Some d \<Rightarrow> digits_value (10 * acc + d) cs)"

definition float_of_digits :: "string \<Rightarrow> real option" where
  "float_of_digits s =
     (if s = [] then None
      else (case digits_value 0 s of None \<Rightarrow> None | Some n \<Rightarrow> Some (real n)))"

section \<open>The calculation in double precision\<close>

text \<open>
  Python computes lines 168 to 195 and 344 to 348 in IEEE doubles: every operation
  rounds its result to the nearest double. The definitions of this section embed these
  lines a second time, with that rounding written out.

  \<open>fl x\<close> is the double nearest to \<open>x\<close>: 53 significant bits, a tie going to the even
  significand. The exponent is not bounded, so there is no overflow and no underflow;
  between \<open>2 ^ -1022\<close> and \<open>2 ^ 1024\<close> in magnitude \<open>fl\<close> is the rounding of IEEE
  binary64.
\<close>

definition fl :: "real \<Rightarrow> real" where
  "fl x =
     (if x = 0 then 0
      else
        let e = \<lfloor>log 2 \<bar>x\<bar>\<rfloor> - 52
        in of_int (round_half_even (x / 2 powr of_int e)) * 2 powr of_int e)"

text \<open>
  A literal such as \<^verbatim>\<open>273.15\<close> is the double nearest to it. \<^verbatim>\<open>math.exp\<close> belongs to
  the C library and is a parameter; the theorems ask of it that it is within one unit in
  the last place of the exponential.
\<close>

definition calculate_dew_point_double :: "real \<Rightarrow> real \<Rightarrow> real" where
  "calculate_dew_point_double temperature humidity =
     fl (temperature - fl (fl (100 - humidity) / 5))"

definition calculate_vapor_pressure_standard_double ::
  "(real \<Rightarrow> real) \<Rightarrow> real \<Rightarrow> real \<Rightarrow> error + real" where
  "calculate_vapor_pressure_standard_double math_exp temperature humidity =
     (let dew_point = calculate_dew_point_double temperature humidity
      in if fl (dew_point + fl 273.15) = 0 then Inl ZeroDivisionError
         else
           let exponent = fl (fl 5417.7530 *
                 fl (fl (1 / fl 273.15) - fl (1 / fl (dew_point + fl 273.15))));
               vapor_pressure = fl (fl 6.11 * math_exp exponent)
           in Inr vapor_pressure)"

definition calculate_vapor_pressure_enhanced_double ::
  "(real \<Rightarrow> real) \<Rightarrow> real \<Rightarrow> real \<Rightarrow> real \<Rightarrow> error + real" where
  "calculate_vapor_pressure_enhanced_double math_exp temperature humidity pressure =
     (if fl (temperature + fl 237.3) = 0 then Inl ZeroDivisionError
      else
        let es = fl (fl 6.1078 *
              math_exp (fl (fl (fl 17.27 * temperature) / fl (temperature + fl 237.3))));
            e = fl (fl (humidity / 100) * es);
            e_corrected = fl (e * fl (pressure / fl 1013.25))
        in Inr e_corrected)"

text \<open>
  Lines 334 to 348 in doubles. \<^verbatim>\<open>round(humidex, 1)\<close> rounds the exact value of the
  double to one decimal place and returns the double nearest to the result.
\<close>

definition calculate_humidex_double ::
  "(real \<Rightarrow> real) \<Rightarrow> real \<Rightarrow> real \<Rightarrow> real option \<Rightarrow> error + (real \<times> string)" where
  "calculate_humidex_double math_exp temperature humidity pressure =
     (case (case pressure of
              Some p \<Rightarrow>
                (case calculate_vapor_pressure_enhanced_double math_exp temperature humidity p of
                   Inl err \<Rightarrow> Inl err
                 | Inr vapor_pressure \<Rightarrow> Inr (vapor_pressure, ''enhanced''))
            | None \<Rightarrow>
                (case calculate_vapor_pressure_standard_double math_exp temperature humidity of
                   Inl err \<Rightarrow> Inl err
                 | Inr vapor_pressure \<Rightarrow> Inr (vapor_pressure, ''standard''))) of
        Inl err \<Rightarrow> Inl err
      | Inr (vapor_pressure, calculation_method) \<Rightarrow>
          let humidex = fl (temperature + fl (fl 0.5555 * fl (vapor_pressure - 10)))
          in Inr (fl (py_round humidex 1), calculation_method))"

text \<open>
  For concrete runs: the exponential rounded to the nearest double. It returns 1 at 0,
  as every \<^verbatim>\<open>math.exp\<close> does.
\<close>

definition exp_double :: "real \<Rightarrow> real" where
  "exp_double x = fl (exp x)"

section \<open>Vocabulary of the claims\<close>

text \<open>
  The pressure reading of a cycle: the state of the configured pressure entity, when
  there is one and it is neither unavailable nor unknown.
\<close>

definition pressure_reading :: "(string \<rightharpoonup> State) \<Rightarrow> HumidexSensor \<Rightarrow> State option" where
  "pressure_reading states self =
     (case pressure_entity_id self of
        None \<Rightarrow> None
      | Some pid \<Rightarrow>
          if pid = [] then None
          else (case states pid of
                  None \<Rightarrow> None
                | Some ps \<Rightarrow> if unavailable_or_unknown (state ps) then None else Some ps))"

text \<open>
  The condition of the spec for an available result, in its words: the temperature and
  humidity readings are present, numeric and in range, the temperature in Celsius
  within -50 and 70, the humidity within 0 and 100, and a pressure that contributes
  within 800 and 1200. A pressure reading that is not numeric does not contribute.
\<close>

definition readings_valid ::
  "(string \<Rightarrow> real option) \<Rightarrow> (string \<rightharpoonup> State) \<Rightarrow> HumidexSensor \<Rightarrow> bool" where
  "readings_valid float states self =
     (case states (temp_entity_id self) of
        None \<Rightarrow> False
      | Some ts \<Rightarrow>
     (case states (humidity_entity_id self) of
        None \<Rightarrow> False
      | Some hs \<Rightarrow>
          \<not> unavailable_or_unknown (state ts) \<and> \<not> unavailable_or_unknown (state hs) \<and>
          (case float (state ts) of
             None \<Rightarrow> False
           | Some t \<Rightarrow>
          (case float (state hs) of
             None \<Rightarrow> False
           | Some h \<Rightarrow>
               - 50 \<le> convert_temperature_to_celsius t (temperature_unit ts) \<and>
               convert_temperature_to_celsius t (temperature_unit ts) \<le> 70 \<and>
               0 \<le> h \<and> h \<le> 100 \<and>
               (case pressure_reading states self of
                  None \<Rightarrow> True
                | Some ps \<Rightarrow>
                    (case float (state ps) of
                       None \<Rightarrow> True
                     | Some p \<Rightarrow> 800 \<le> p \<and> p \<le> 1200))))))"

text \<open>The pressure reading of the cycle, if there is one, is numeric.\<close>

definition pressure_numeric ::
  "(string \<Rightarrow> real option) \<Rightarrow> (string \<rightharpoonup> State) \<Rightarrow> HumidexSensor \<Rightarrow> bool" where
  "pressure_numeric float states self =
     (case pressure_reading states self of
        None \<Rightarrow> True
      | Some ps \<Rightarrow> float (state ps) \<noteq> None)"

text \<open>
  What no update changes in a sensor before its final write: the states written so far,
  the configured entities and the translations; and the value is set exactly when the
  availability flag is.
\<close>

definition settled :: "HumidexSensor \<Rightarrow> HumidexSensor \<Rightarrow> bool" where
  "settled self s \<longleftrightarrow>
     written s = written self \<and> temp_entity_id s = temp_entity_id self \<and>
     humidity_entity_id s = humidity_entity_id self \<and>
     pressure_entity_id s = pressure_entity_id self \<and>
     attr_translations s = attr_translations self \<and>
     (attr_native_value s \<noteq> None) = attr_available s"

subsection \<open>Concrete sensors and readings\<close>

definition reading :: "string \<Rightarrow> State" where
  "reading s = \<lparr>state = s, attributes = Map.empty\<rparr>"

definition sensor_without_pressure :: HumidexSensor where
  "sensor_without_pressure =
     HumidexSensor_init ''Humidex'' ''sensor.temperature'' ''sensor.humidity'' None"

definition sensor_with_pressure :: HumidexSensor where
  "sensor_with_pressure =
     HumidexSensor_init ''Humidex'' ''sensor.temperature'' ''sensor.humidity''
       (Some ''sensor.pressure'')"

text \<open>The states of Home Assistant with the given readings of the three entities.\<close>

definition readings_of :: "string \<Rightarrow> string \<Rightarrow> string option \<Rightarrow> (string \<rightharpoonup> State)" where
  "readings_of t h p =
     (\<lambda>entity_id.
        if entity_id = ''sensor.temperature'' then Some (reading t)
        else if entity_id = ''sensor.humidity'' then Some (reading h)
        else if entity_id = ''sensor.pressure'' then map_option reading p
        else None)"

section \<open>Properties\<close>

subsection \<open>Rounding\<close>

lemma round_half_even_range:
  "\<lfloor>y\<rfloor> \<le> round_half_even y" "round_half_even y \<le> \<lfloor>y\<rfloor> + 1"
  by (simp_all add: round_half_even_def Let_def)

lemma round_half_even_eq:
  assumes "of_int n - 1 / 2 < y" "y < of_int n + 1 / 2"
  shows "round_half_even y = n"
proof (cases "of_int n \<le> y")
  case True
  then have "\<lfloor>y\<rfloor> = n" using assms by (intro floor_unique) linarith+
  then show ?thesis using assms True by (simp add: round_half_even_def Let_def)
next
  case False
  then have "\<lfloor>y\<rfloor> = n - 1" using assms by (intro floor_unique) (simp, linarith)+
  then show ?thesis using assms False by (simp add: round_half_even_def Let_def)
qed

lemma round_half_even_mono:
  assumes "x \<le> y"
  shows "round_half_even x \<le> round_half_even y"
proof (cases "\<lfloor>x\<rfloor> = \<lfloor>y\<rfloor>")
  case True
  then show ?thesis using assms by (simp add: round_half_even_def Let_def)
next
  case False
  then have "\<lfloor>x\<rfloor> + 1 \<le> \<lfloor>y\<rfloor>" using floor_mono [OF assms] by linarith
  then show ?thesis
    using round_half_even_range(2) [of x] round_half_even_range(1) [of y] by linarith
qed

lemma py_round_mono: "x \<le> y \<Longrightarrow> py_round x n \<le> py_round y n"
  by (simp add: py_round_def divide_right_mono round_half_even_mono)

lemma py_round_1_eq:
  assumes "of_int n - 1 / 2 < x * 10" "x * 10 < of_int n + 1 / 2"
  shows "py_round x 1 = of_int n / 10"
  using round_half_even_eq [OF assms] by (simp add: py_round_def)

subsection \<open>Bounds of the exponential\<close>

lemma exp_Taylor_lower:
  fixes x :: real
  assumes "0 \<le> x"
  shows "(\<Sum>m<n. x ^ m / fact m) \<le> exp x"
proof -
  obtain t where "exp x = (\<Sum>m<n. x ^ m / fact m) + (exp t / fact n) * x ^ n"
    using Maclaurin_exp_le [of x n] by blast
  moreover have "0 \<le> (exp t / fact n) * x ^ n"
    using assms by simp
  ultimately show ?thesis by linarith
qed

lemma exp_Taylor_upper:
  fixes x :: real
  assumes "0 \<le> x" "x \<le> 2"
  shows "exp x \<le> (\<Sum>m<n. x ^ m / fact m) + 9 * x ^ n / fact n"
proof -
  obtain t where t: "\<bar>t\<bar> \<le> \<bar>x\<bar>"
    and e: "exp x = (\<Sum>m<n. x ^ m / fact m) + (exp t / fact n) * x ^ n"
    using Maclaurin_exp_le [of x n] by blast
  have "t \<le> 2" using t assms by linarith
  then have "exp t \<le> exp (1 + 1)" by simp
  also have "\<dots> = exp 1 * exp 1" by (rule exp_add)
  also have "\<dots> \<le> 3 * 3" by (intro mult_mono exp_le) simp_all
  finally have "exp t \<le> 9" by simp
  then have "exp t * (x ^ n / fact n) \<le> 9 * (x ^ n / fact n)"
    using assms by (intro mult_right_mono) simp_all
  then show ?thesis using e by (simp add: field_simps)
qed

lemma Taylor_sum_10:
  "(\<Sum>m<10. x ^ m / fact m) =
     1 + x + x^2 / 2 + x^3 / 6 + x^4 / 24 + x^5 / 120 + x^6 / 720 + x^7 / 5040
     + x^8 / 40320 + x^9 / 362880" for x :: real
  by (simp add: lessThan_nat_numeral lessThan_Suc fact_numeral)

lemma exp_14784_lower: "4.385 \<le> exp (1.4784 :: real)"
proof -
  have "(4.385::real) \<le> (\<Sum>m<10. (1.4784::real) ^ m / fact m)"
    unfolding Taylor_sum_10 by (simp add: power_divide)
  also have "\<dots> \<le> exp 1.4784" by (rule exp_Taylor_lower) simp
  finally show ?thesis .
qed

lemma exp_14785_upper: "exp (1.4785 :: real) \<le> 4.387"
proof -
  have "exp (1.4785::real)
      \<le> (\<Sum>m<10. (1.4785::real) ^ m / fact m) + 9 * 1.4785 ^ 10 / fact 10"
    by (rule exp_Taylor_upper) simp_all
  also have "\<dots> \<le> 4.387"
    unfolding Taylor_sum_10 by (simp add: fact_numeral power_divide)
  finally show ?thesis .
qed

subsection \<open>Validation and calculation\<close>

lemma validate_sensor_values_iff:
  "fst (validate_sensor_values T RH P) =
     (- 50 \<le> T \<and> T \<le> 70 \<and> 0 \<le> RH \<and> RH \<le> 100
      \<and> (case P of None \<Rightarrow> True | Some p \<Rightarrow> 800 \<le> p \<and> p \<le> 1200))"
  by (auto simp: validate_sensor_values_def split: option.split)

lemma validate_sensor_values_silent:
  "fst (validate_sensor_values T RH P) \<Longrightarrow> snd (validate_sensor_values T RH P) = []"
  by (auto simp: validate_sensor_values_def split: option.splits if_splits)

lemma calculate_humidex_standard:
  assumes "- 50 \<le> T" "0 \<le> RH"
  shows "calculate_humidex T RH None =
    Inr (py_round (T + 0.5555 * (6.11 * exp (5417.7530 *
           ((1 / 273.15) - (1 / (T - ((100 - RH) / 5) + 273.15)))) - 10)) 1,
         ''standard'')"
proof -
  have "0 < T - ((100 - RH) / 5) + 273.15" using assms by (simp add: field_simps)
  then have "T - ((100 - RH) / 5) + 273.15 \<noteq> 0" by (rule less_imp_neq [symmetric])
  then show ?thesis
    unfolding calculate_humidex_def calculate_vapor_pressure_standard_def
        calculate_dew_point_def Let_def
    by (simp only: if_False option.case sum.case prod.case)
qed

lemma calculate_humidex_enhanced:
  assumes "- 50 \<le> T"
  shows "calculate_humidex T RH (Some p) =
    Inr (py_round (T + 0.5555 * ((RH / 100.0) * (6.1078 * exp ((17.27 * T) / (T + 237.3)))
           * (p / 1013.25) - 10)) 1,
         ''enhanced'')"
proof -
  have "0 < T + 237.3" using assms by (simp; linarith)
  then have "T + 237.3 \<noteq> 0" by (rule less_imp_neq [symmetric])
  then show ?thesis
    unfolding calculate_humidex_def calculate_vapor_pressure_enhanced_def Let_def
    by (simp only: if_False option.case sum.case prod.case)
qed

subsection \<open>Fields after logging and writing\<close>

lemma emit_fields:
  "attr_available (emit l m s) = attr_available s"
  "attr_native_value (emit l m s) = attr_native_value s"
  "pressure_entity_id (emit l m s) = pressure_entity_id s"
  "temp_entity_id (emit l m s) = temp_entity_id s"
  "humidity_entity_id (emit l m s) = humidity_entity_id s"
  "attr_translations (emit l m s) = attr_translations s"
  "written (emit l m s) = written s"
  "logged (emit l m s) = logged s @ [(l, m)]"
  by (simp_all add: emit_def)

lemma extra_state_attributes_cong:
  "temp_entity_id s = temp_entity_id s' \<Longrightarrow> humidity_entity_id s = humidity_entity_id s' \<Longrightarrow>
   pressure_entity_id s = pressure_entity_id s' \<Longrightarrow>
   attr_native_value s = attr_native_value s' \<Longrightarrow>
   attr_translations s = attr_translations s' \<Longrightarrow>
   extra_state_attributes s = extra_state_attributes s'"
  by (simp add: extra_state_attributes_def get_comfort_description_sync_def
      split: option.split)

lemma write_fields:
  "attr_available (async_write_ha_state s) = attr_available s"
  "attr_native_value (async_write_ha_state s) = attr_native_value s"
  "pressure_entity_id (async_write_ha_state s) = pressure_entity_id s"
  "temp_entity_id (async_write_ha_state s) = temp_entity_id s"
  "humidity_entity_id (async_write_ha_state s) = humidity_entity_id s"
  "attr_translations (async_write_ha_state s) = attr_translations s"
  "logged (async_write_ha_state s) = logged s"
  "written (async_write_ha_state s) = written s @
       [\<lparr>native_value = attr_native_value s, available = attr_available s,
         state_attributes = extra_state_attributes s\<rparr>]"
  by (simp_all add: async_write_ha_state_def)

lemma extra_state_attributes_write:
  "extra_state_attributes (async_write_ha_state s) = extra_state_attributes s"
  by (rule extra_state_attributes_cong) (simp_all add: write_fields)

lemma check_pressure_state_fields:
  "attr_available (fst (check_pressure_state pst s)) = attr_available s"
  "attr_native_value (fst (check_pressure_state pst s)) = attr_native_value s"
  "pressure_entity_id (fst (check_pressure_state pst s)) = pressure_entity_id s"
  "temp_entity_id (fst (check_pressure_state pst s)) = temp_entity_id s"
  "humidity_entity_id (fst (check_pressure_state pst s)) = humidity_entity_id s"
  "attr_translations (fst (check_pressure_state pst s)) = attr_translations s"
  "written (fst (check_pressure_state pst s)) = written s"
  by (simp_all add: check_pressure_state_def emit_fields)

subsection \<open>The branches of the update\<close>

lemma pressure_reading_eq:
  "snd (check_pressure_state (fetch_pressure_state states self) self)
     = pressure_reading states self"
  by (auto simp: check_pressure_state_def fetch_pressure_state_def pressure_reading_def
      truthy_def split: option.split)

lemma pressure_reading_available:
  "pressure_reading states self = Some ps \<Longrightarrow> \<not> unavailable_or_unknown (state ps)"
  by (auto simp: pressure_reading_def split: option.splits if_splits)

lemma parse_values_reading:
  assumes "float (state ts) = Some t" "float (state hs) = Some h"
  shows "parse_values float ts hs (pressure_reading states self) =
     (case pressure_reading states self of
        None \<Rightarrow> Some (t, h, None)
      | Some ps \<Rightarrow>
          (case float (state ps) of None \<Rightarrow> None | Some p \<Rightarrow> Some (t, h, Some p)))"
  using assms
  by (auto simp: parse_values_def dest: pressure_reading_available split: option.split)

lemma update_no_temperature:
  "states (temp_entity_id self) = None \<Longrightarrow>
   async_update_humidex float states self =
     set_unavailable (emit WARNING (Temperature_entity_not_found (temp_entity_id self)) self)"
  by (simp add: async_update_humidex_def)

lemma update_no_humidity:
  "states (temp_entity_id self) = Some ts \<Longrightarrow> states (humidity_entity_id self) = None \<Longrightarrow>
   async_update_humidex float states self =
     set_unavailable (emit WARNING (Humidity_entity_not_found (humidity_entity_id self)) self)"
  by (simp add: async_update_humidex_def)

lemma update_temperature_unavailable:
  "states (temp_entity_id self) = Some ts \<Longrightarrow> states (humidity_entity_id self) = Some hs \<Longrightarrow>
   unavailable_or_unknown (state ts) \<Longrightarrow>
   async_update_humidex float states self =
     set_unavailable
       (emit WARNING (Temperature_entity_is (temp_entity_id self) (state ts)) self)"
  by (simp add: async_update_humidex_def)

lemma update_humidity_unavailable:
  "states (temp_entity_id self) = Some ts \<Longrightarrow> states (humidity_entity_id self) = Some hs \<Longrightarrow>
   \<not> unavailable_or_unknown (state ts) \<Longrightarrow> unavailable_or_unknown (state hs) \<Longrightarrow>
   async_update_humidex float states self =
     set_unavailable
       (emit WARNING (Humidity_entity_is (humidity_entity_id self) (state hs)) self)"
  by (simp add: async_update_humidex_def)

lemma update_readings:
  "states (temp_entity_id self) = Some ts \<Longrightarrow> states (humidity_entity_id self) = Some hs \<Longrightarrow>
   \<not> unavailable_or_unknown (state ts) \<Longrightarrow> \<not> unavailable_or_unknown (state hs) \<Longrightarrow>
   async_update_humidex float states self =
     evaluate_readings float ts hs (pressure_reading states self)
       (fst (check_pressure_state (fetch_pressure_state states self) self))"
  by (simp add: async_update_humidex_def Let_def split_beta pressure_reading_eq)

lemma publish_invalid:
  "\<not> fst (validate_sensor_values (convert_temperature_to_celsius t (temperature_unit ts)) h p) \<Longrightarrow>
   publish_humidex ts t h p s =
     set_unavailable (s\<lparr>logged := logged s @
        snd (validate_sensor_values (convert_temperature_to_celsius t (temperature_unit ts)) h p)\<rparr>)"
  by (simp add: publish_humidex_def Let_def split_beta)

lemma publish_valid:
  "fst (validate_sensor_values (convert_temperature_to_celsius t (temperature_unit ts)) h p) \<Longrightarrow>
   calculate_humidex (convert_temperature_to_celsius t (temperature_unit ts)) h p = Inr (v, m) \<Longrightarrow>
   publish_humidex ts t h p s =
     async_write_ha_state
       (emit DEBUG
          (Calculated_humidex v m (convert_temperature_to_celsius t (temperature_unit ts)) h
             (case p of None \<Rightarrow> None | Some q \<Rightarrow> if q \<noteq> 0 then Some q else None))
          (s\<lparr>attr_native_value := Some v, attr_available := True\<rparr>))"
  by (simp add: publish_humidex_def Let_def split_beta validate_sensor_values_silent)

lemma set_unavailable_fields:
  "attr_available (set_unavailable s) = False"
  "attr_native_value (set_unavailable s) = None"
  "pressure_entity_id (set_unavailable s) = pressure_entity_id s"
  "temp_entity_id (set_unavailable s) = temp_entity_id s"
  "humidity_entity_id (set_unavailable s) = humidity_entity_id s"
  "attr_translations (set_unavailable s) = attr_translations s"
  "logged (set_unavailable s) = logged s"
  by (simp_all add: set_unavailable_def write_fields)

lemma calculate_humidex_valid:
  assumes "fst (validate_sensor_values T RH P)"
  shows "\<exists>v m. calculate_humidex T RH P = Inr (v, m)"
proof -
  from assms have "- 50 \<le> T" "0 \<le> RH" by (simp_all add: validate_sensor_values_iff)
  then show ?thesis
    by (cases P) (simp_all add: calculate_humidex_standard calculate_humidex_enhanced)
qed

lemma update_published:
  assumes "states (temp_entity_id self) = Some ts" "states (humidity_entity_id self) = Some hs"
    and "\<not> unavailable_or_unknown (state ts)" "\<not> unavailable_or_unknown (state hs)"
    and "parse_values float ts hs (pressure_reading states self) = Some (t, h, P)"
    and "fst (validate_sensor_values (convert_temperature_to_celsius t (temperature_unit ts)) h P)"
    and "calculate_humidex (convert_temperature_to_celsius t (temperature_unit ts)) h P = Inr (v, m)"
  shows "async_update_humidex float states self =
     async_write_ha_state
       (emit DEBUG
          (Calculated_humidex v m (convert_temperature_to_celsius t (temperature_unit ts)) h
             (case P of None \<Rightarrow> None | Some q \<Rightarrow> if q \<noteq> 0 then Some q else None))
          ((fst (check_pressure_state (fetch_pressure_state states self) self))
             \<lparr>attr_native_value := Some v, attr_available := True\<rparr>))"
  using assms by (simp add: update_readings evaluate_readings_def publish_valid)

lemma update_rejected:
  assumes "states (temp_entity_id self) = Some ts" "states (humidity_entity_id self) = Some hs"
    and "\<not> unavailable_or_unknown (state ts)" "\<not> unavailable_or_unknown (state hs)"
    and "parse_values float ts hs (pressure_reading states self) = Some (t, h, P)"
    and "\<not> fst (validate_sensor_values (convert_temperature_to_celsius t (temperature_unit ts)) h P)"
  shows "async_update_humidex float states self =
     set_unavailable ((fst (check_pressure_state (fetch_pressure_state states self) self))
       \<lparr>logged := logged (fst (check_pressure_state (fetch_pressure_state states self) self)) @
          snd (validate_sensor_values (convert_temperature_to_celsius t (temperature_unit ts)) h P)\<rparr>)"
  using assms by (simp add: update_readings evaluate_readings_def publish_invalid)

lemma update_not_numeric:
  assumes "states (temp_entity_id self) = Some ts" "states (humidity_entity_id self) = Some hs"
    and "\<not> unavailable_or_unknown (state ts)" "\<not> unavailable_or_unknown (state hs)"
    and "parse_values float ts hs (pressure_reading states self) = None"
  shows "async_update_humidex float states self =
     set_unavailable
       (emit ERROR
          (Invalid_numeric_values (state ts) (state hs)
             (case pressure_reading states self of None \<Rightarrow> ''N/A'' | Some ps \<Rightarrow> state ps))
          (fst (check_pressure_state (fetch_pressure_state states self) self)))"
  using assms by (simp add: update_readings evaluate_readings_def)

lemma update_available_iff:
  "attr_available (async_update_humidex float states self)
     = (readings_valid float states self \<and> pressure_numeric float states self)"
proof (cases "states (temp_entity_id self)")
  case None
  then show ?thesis
    by (simp add: update_no_temperature set_unavailable_fields readings_valid_def)
next
  case (Some ts)
  note ts = this
  show ?thesis
  proof (cases "states (humidity_entity_id self)")
    case None
    then show ?thesis using ts
      by (simp add: update_no_humidity set_unavailable_fields readings_valid_def)
  next
    case (Some hs)
    note hs = this
    consider (tu) "unavailable_or_unknown (state ts)"
      | (hu) "\<not> unavailable_or_unknown (state ts)" "unavailable_or_unknown (state hs)"
      | (ok) "\<not> unavailable_or_unknown (state ts)" "\<not> unavailable_or_unknown (state hs)"
      by blast
    then show ?thesis
    proof cases
      case tu
      then show ?thesis using ts hs
        by (simp add: update_temperature_unavailable set_unavailable_fields readings_valid_def)
    next
      case hu
      then show ?thesis using ts hs
        by (simp add: update_humidity_unavailable set_unavailable_fields readings_valid_def)
    next
      case ok
      show ?thesis
      proof (cases "parse_values float ts hs (pressure_reading states self)")
        case None
        have "\<not> (readings_valid float states self \<and> pressure_numeric float states self)"
          using None ts hs ok
          by (auto simp: readings_valid_def pressure_numeric_def parse_values_def
              split: option.splits if_splits)
        then show ?thesis using None ts hs ok
          by (simp add: update_not_numeric set_unavailable_fields)
      next
        case (Some r)
        obtain t h P where r: "r = (t, h, P)" by (cases r)
        have fl: "float (state ts) = Some t" "float (state hs) = Some h"
          using Some r by (auto simp: parse_values_def split: option.splits if_splits)
        have P: "P = (case pressure_reading states self of None \<Rightarrow> None | Some ps \<Rightarrow> float (state ps))"
          "pressure_numeric float states self"
        proof -
          have pv: "(case pressure_reading states self of
                None \<Rightarrow> Some (t, h, None)
              | Some ps \<Rightarrow>
                  (case float (state ps) of None \<Rightarrow> None | Some p \<Rightarrow> Some (t, h, Some p)))
              = Some (t, h, P)"
            using Some r fl by (simp add: parse_values_reading)
          show "P = (case pressure_reading states self of None \<Rightarrow> None | Some ps \<Rightarrow> float (state ps))"
            using pv by (cases "pressure_reading states self"; cases "float (state (the (pressure_reading states self)))") auto
          show "pressure_numeric float states self"
            using pv by (cases "pressure_reading states self"; cases "float (state (the (pressure_reading states self)))") (auto simp: pressure_numeric_def)
        qed
        have rv: "readings_valid float states self =
           fst (validate_sensor_values (convert_temperature_to_celsius t (temperature_unit ts)) h P)"
          using ts hs ok fl P
          by (auto simp: readings_valid_def validate_sensor_values_iff pressure_numeric_def split: option.splits)
        show ?thesis
        proof (cases "fst (validate_sensor_values (convert_temperature_to_celsius t (temperature_unit ts)) h P)")
          case True
          then obtain v m where "calculate_humidex (convert_temperature_to_celsius t (temperature_unit ts)) h P = Inr (v, m)"
            using calculate_humidex_valid by blast
          then show ?thesis using True rv P ts hs ok Some r
            by (simp add: update_published write_fields emit_fields)
        next
          case False
          then show ?thesis using rv P ts hs ok Some r
            by (simp add: update_rejected set_unavailable_fields)
        qed
      qed
    qed
  qed
qed

subsection \<open>Every update ends with a write\<close>

lemma settled_unavailable:
  assumes "written s = written self" "temp_entity_id s = temp_entity_id self"
    "humidity_entity_id s = humidity_entity_id self" "pressure_entity_id s = pressure_entity_id self"
    "attr_translations s = attr_translations self"
  shows "\<exists>s'. set_unavailable s = async_write_ha_state s' \<and> settled self s'"
  using assms by (auto simp: set_unavailable_def settled_def)

lemma update_shape:
  "\<exists>s'. async_update_humidex float states self = async_write_ha_state s' \<and> settled self s'"
proof (cases "states (temp_entity_id self)")
  case None
  then show ?thesis
    by (simp add: update_no_temperature settled_unavailable emit_fields)
next
  case (Some ts)
  note ts = this
  show ?thesis
  proof (cases "states (humidity_entity_id self)")
    case None
    then show ?thesis using ts
      by (simp add: update_no_humidity settled_unavailable emit_fields)
  next
    case (Some hs)
    note hs = this
    consider (tu) "unavailable_or_unknown (state ts)"
      | (hu) "\<not> unavailable_or_unknown (state ts)" "unavailable_or_unknown (state hs)"
      | (ok) "\<not> unavailable_or_unknown (state ts)" "\<not> unavailable_or_unknown (state hs)"
      by blast
    then show ?thesis
    proof cases
      case tu
      then show ?thesis using ts hs
        by (simp add: update_temperature_unavailable settled_unavailable emit_fields)
    next
      case hu
      then show ?thesis using ts hs
        by (simp add: update_humidity_unavailable settled_unavailable emit_fields)
    next
      case ok
      show ?thesis
      proof (cases "parse_values float ts hs (pressure_reading states self)")
        case None
        then show ?thesis using ts hs ok
          by (simp add: update_not_numeric settled_unavailable emit_fields
              check_pressure_state_fields)
      next
        case (Some r)
        obtain t h P where r: "r = (t, h, P)" by (cases r)
        show ?thesis
        proof (cases "fst (validate_sensor_values
            (convert_temperature_to_celsius t (temperature_unit ts)) h P)")
          case True
          then obtain v m where
            "calculate_humidex (convert_temperature_to_celsius t (temperature_unit ts)) h P
               = Inr (v, m)"
            using calculate_humidex_valid by blast
          then have "async_update_humidex float states self =
             async_write_ha_state
               (emit DEBUG
                  (Calculated_humidex v m (convert_temperature_to_celsius t (temperature_unit ts)) h
                     (case P of None \<Rightarrow> None | Some q \<Rightarrow> if q \<noteq> 0 then Some q else None))
                  ((fst (check_pressure_state (fetch_pressure_state states self) self))
                     \<lparr>attr_native_value := Some v, attr_available := True\<rparr>))"
            using True ts hs ok Some r by (simp add: update_published)
          moreover have "settled self (emit DEBUG
                  (Calculated_humidex v m (convert_temperature_to_celsius t (temperature_unit ts)) h
                     (case P of None \<Rightarrow> None | Some q \<Rightarrow> if q \<noteq> 0 then Some q else None))
                  ((fst (check_pressure_state (fetch_pressure_state states self) self))
                     \<lparr>attr_native_value := Some v, attr_available := True\<rparr>))"
            by (simp add: settled_def emit_fields check_pressure_state_fields)
          ultimately show ?thesis by blast
        next
          case False
          then show ?thesis using ts hs ok Some r
            by (simp add: update_rejected settled_unavailable check_pressure_state_fields)
        qed
      qed
    qed
  qed
qed

lemma update_written:
  "written (async_update_humidex float states self) = written self @
     [\<lparr>native_value = attr_native_value (async_update_humidex float states self),
       available = attr_available (async_update_humidex float states self),
       state_attributes = extra_state_attributes (async_update_humidex float states self)\<rparr>]"
proof -
  obtain s' where "async_update_humidex float states self = async_write_ha_state s'"
    "settled self s'"
    using update_shape by blast
  then show ?thesis
    by (simp add: write_fields extra_state_attributes_write settled_def)
qed

lemma update_value_iff:
  "(attr_native_value (async_update_humidex float states self) \<noteq> None)
     = attr_available (async_update_humidex float states self)"
proof -
  obtain s' where "async_update_humidex float states self = async_write_ha_state s'"
    "settled self s'"
    using update_shape by blast
  then show ?thesis
    by (simp add: write_fields settled_def)
qed

lemma comfort_level_attribute:
  "map_of (extra_state_attributes s) ''comfort_level''
     = map_option get_comfort_level (attr_native_value s)"
  by (simp add: extra_state_attributes_def split: option.split)

subsection \<open>Comfort bands\<close>

text \<open>
  C6. For every real humidex value the comfort level is exactly one of the five levels:
  cold below 20, comfortable from 20 to 29, slightly uncomfortable above 29 up to 39,
  very uncomfortable above 39 up to 45, dangerous above 45. Each boundary value 20, 29, 39
  and 45 falls in the lower of its two bands. The function is total: it has no error
  result.
\<close>

theorem get_comfort_level_bands:
  "(get_comfort_level h = ''cold'') = (h < 20)
   \<and> (get_comfort_level h = ''comfortable'') = (20 \<le> h \<and> h \<le> 29)
   \<and> (get_comfort_level h = ''slightly_uncomfortable'') = (29 < h \<and> h \<le> 39)
   \<and> (get_comfort_level h = ''very_uncomfortable'') = (39 < h \<and> h \<le> 45)
   \<and> (get_comfort_level h = ''dangerous'') = (45 < h)
   \<and> get_comfort_level h \<in> {''cold'', ''comfortable'', ''slightly_uncomfortable'',
         ''very_uncomfortable'', ''dangerous''}
   \<and> get_comfort_level 20 = ''comfortable''
   \<and> get_comfort_level 29 = ''comfortable''
   \<and> get_comfort_level 39 = ''slightly_uncomfortable''
   \<and> get_comfort_level 45 = ''very_uncomfortable''"
  by (simp add: get_comfort_level_def)

subsection \<open>Unit conversion\<close>

text \<open>
  C10. 32 degrees Fahrenheit convert to 0 and 212 to 100, by \<open>C = (F - 32) * 5/9\<close>;
  under every unit other than Fahrenheit, the Celsius unit and unrecognised units
  included, the value is returned unchanged.
\<close>

theorem convert_temperature_to_celsius_units:
  "convert_temperature_to_celsius 32 UnitOfTemperature_FAHRENHEIT = 0
   \<and> convert_temperature_to_celsius 212 UnitOfTemperature_FAHRENHEIT = 100
   \<and> convert_temperature_to_celsius x UnitOfTemperature_FAHRENHEIT = (x - 32) * 5 / 9
   \<and> convert_temperature_to_celsius x UnitOfTemperature_CELSIUS = x
   \<and> (unit \<noteq> UnitOfTemperature_FAHRENHEIT \<longrightarrow> convert_temperature_to_celsius x unit = x)"
  by (simp add: convert_temperature_to_celsius_def TemperatureConverter_convert_F_to_C_def
      UnitOfTemperature_FAHRENHEIT_def UnitOfTemperature_CELSIUS_def)

theorem convert_temperature_to_celsius_units_witness:
  "''K'' \<noteq> UnitOfTemperature_FAHRENHEIT \<and> convert_temperature_to_celsius 300 ''K'' = 300"
proof -
  have u: "''K'' \<noteq> UnitOfTemperature_FAHRENHEIT"
    by (simp add: UnitOfTemperature_FAHRENHEIT_def)
  have "''K'' \<noteq> UnitOfTemperature_FAHRENHEIT \<longrightarrow> convert_temperature_to_celsius 300 ''K'' = 300"
    using convert_temperature_to_celsius_units [of 300 "''K''"] by blast
  then have "convert_temperature_to_celsius 300 ''K'' = 300"
    using u by (rule mp)
  with u show ?thesis by (rule conjI)
qed

subsection \<open>Concrete runs\<close>

lemmas run_defs =
  async_update_humidex_def fetch_pressure_state_def check_pressure_state_def
  evaluate_readings_def parse_values_def publish_humidex_def temperature_unit_def
  convert_temperature_to_celsius_def validate_sensor_values_def set_unavailable_def
  async_write_ha_state_def emit_def extra_state_attributes_def
  get_comfort_description_sync_def fallback_descriptions_def truthy_def
  unavailable_or_unknown_def HumidexSensor_init_def sensor_with_pressure_def
  sensor_without_pressure_def readings_of_def reading_def UnitOfTemperature_CELSIUS_def
  UnitOfTemperature_FAHRENHEIT_def get_comfort_level_def

lemma float_of_digits_examples:
  "float_of_digits ''0'' = Some 0"
  "float_of_digits ''100'' = Some 100"
  "float_of_digits ''1000'' = Some 1000"
  "float_of_digits ''20'' = Some 20"
  "float_of_digits ''30'' = Some 30"
  "float_of_digits ''50'' = Some 50"
  "float_of_digits ''60'' = Some 60"
  "float_of_digits ''abc'' = None"
  "float_of_digits ''high'' = None"
  by (simp_all add: float_of_digits_def digit_value_def)

lemma calculate_humidex_0_100: "calculate_humidex 0 100 None = Inr (- 2.2, ''standard'')"
  by (simp add: calculate_humidex_def calculate_vapor_pressure_standard_def
      calculate_dew_point_def Let_def py_round_def round_half_even_def)

subsection \<open>The reported calculation method\<close>

text \<open>
  C1. The claim: the reported calculation method is enhanced if and only if a valid
  pressure reading contributed to the last successful computation, and it is standard
  when the pressure entity is configured but its reading was unavailable. The run
  below has temperature 0, humidity 100 and a configured pressure entity whose state is
  \<^verbatim>\<open>unavailable\<close>: the update drops the pressure, computes -2.2 by the standard
  method and says so in its log, yet the written attributes report
  \<^verbatim>\<open>enhanced\<close>, since \<^verbatim>\<open>extra_state_attributes\<close> looks only at the configuration.
\<close>

theorem method_reported_enhanced_after_standard_run:
  "written (async_update_humidex float_of_digits
      (readings_of ''0'' ''100'' (Some ''unavailable'')) sensor_with_pressure)
   = [\<lparr>native_value = Some (- 2.2), available = True,
       state_attributes =
         [(''temperature_entity'', ''sensor.temperature''),
          (''humidity_entity'', ''sensor.humidity''),
          (''pressure_entity'', ''sensor.pressure''),
          (''calculation_method'', ''enhanced''),
          (''comfort_level'', ''cold''),
          (''comfort_description'', ''Cold'')]\<rparr>]
   \<and> logged (async_update_humidex float_of_digits
      (readings_of ''0'' ''100'' (Some ''unavailable'')) sensor_with_pressure)
   = [(DEBUG, Initialized ''Humidex'' ''sensor.temperature'' ''sensor.humidity''
         (Some ''sensor.pressure'')),
      (WARNING, Pressure_entity_is ''sensor.pressure'' ''unavailable''),
      (DEBUG, Calculated_humidex (- 2.2) ''standard'' 0 100 None)]"
  by (simp add: run_defs float_of_digits_examples calculate_humidex_0_100)

subsection \<open>Availability\<close>

text \<open>
  The claim C2 as stated fails: temperature 20 and humidity 50 are present, numeric and
  in range, the pressure reading \<^verbatim>\<open>high\<close> is not numeric and so contributes nothing,
  and the result is unavailable.
\<close>

theorem available_iff_required_readings_counterexample:
  "readings_valid float_of_digits (readings_of ''20'' ''50'' (Some ''high'')) sensor_with_pressure
   \<and> \<not> attr_available (async_update_humidex float_of_digits
        (readings_of ''20'' ''50'' (Some ''high'')) sensor_with_pressure)"
  by (simp add: run_defs float_of_digits_examples readings_valid_def pressure_reading_def)

text \<open>
  C2, amended. After every update the result is available if and only if the
  temperature and humidity readings are present, numeric and in range, a contributing
  pressure is within 800 and 1200, and the pressure reading of the cycle, if there is
  one, is numeric. The value is set exactly when the result is available, the written
  state carries value, flag and attributes, and the \<^verbatim>\<open>comfort_level\<close> attribute is
  present exactly when the value is, as the level of that value.
\<close>

theorem available_iff_readings_valid:
  assumes "s' = async_update_humidex float states self"
  shows "attr_available s'
           = (readings_valid float states self \<and> pressure_numeric float states self)
       \<and> (attr_native_value s' \<noteq> None) = attr_available s'
       \<and> written s' = written self @
            [\<lparr>native_value = attr_native_value s', available = attr_available s',
              state_attributes = extra_state_attributes s'\<rparr>]
       \<and> map_of (extra_state_attributes s') ''comfort_level''
            = map_option get_comfort_level (attr_native_value s')"
  unfolding assms
  using update_available_iff [of float states self] update_value_iff [of float states self]
    update_written [of float states self]
    comfort_level_attribute [of "async_update_humidex float states self"]
  by (intro conjI)

theorem available_iff_readings_valid_witness:
  "readings_valid float_of_digits (readings_of ''0'' ''100'' (Some ''1000'')) sensor_with_pressure
   \<and> pressure_numeric float_of_digits (readings_of ''0'' ''100'' (Some ''1000''))
        sensor_with_pressure
   \<and> attr_available (async_update_humidex float_of_digits
        (readings_of ''0'' ''100'' (Some ''1000'')) sensor_with_pressure)
   \<and> attr_native_value (async_update_humidex float_of_digits
        (readings_of ''0'' ''100'' (Some ''1000'')) sensor_with_pressure) \<noteq> None"
proof -
  have v: "readings_valid float_of_digits (readings_of ''0'' ''100'' (Some ''1000''))
      sensor_with_pressure"
    by (simp add: run_defs float_of_digits_examples readings_valid_def pressure_reading_def)
  have n: "pressure_numeric float_of_digits (readings_of ''0'' ''100'' (Some ''1000''))
      sensor_with_pressure"
    by (simp add: run_defs float_of_digits_examples pressure_numeric_def pressure_reading_def)
  note t = available_iff_readings_valid [OF refl, of float_of_digits
      "readings_of ''0'' ''100'' (Some ''1000'')" sensor_with_pressure]
  from t v n have a: "attr_available (async_update_humidex float_of_digits
        (readings_of ''0'' ''100'' (Some ''1000'')) sensor_with_pressure)"
    by blast
  from t a have "attr_native_value (async_update_humidex float_of_digits
        (readings_of ''0'' ''100'' (Some ''1000'')) sensor_with_pressure) \<noteq> None"
    by blast
  with v n a show ?thesis by blast
qed

subsection \<open>A pressure reading that is not numeric\<close>

text \<open>
  The claim C4 as stated fails: with temperature 0, humidity 100 and the pressure
  reading \<^verbatim>\<open>abc\<close>, the update does not fall back to the standard method; it writes
  an unavailable state.
\<close>

theorem non_numeric_pressure_counterexample:
  "pressure_reading (readings_of ''0'' ''100'' (Some ''abc'')) sensor_with_pressure
     = Some (reading ''abc'')
   \<and> float_of_digits ''abc'' = None
   \<and> float_of_digits ''0'' = Some 0
   \<and> float_of_digits ''100'' = Some 100
   \<and> written (async_update_humidex float_of_digits
        (readings_of ''0'' ''100'' (Some ''abc'')) sensor_with_pressure)
     = [\<lparr>native_value = None, available = False,
         state_attributes =
           [(''temperature_entity'', ''sensor.temperature''),
            (''humidity_entity'', ''sensor.humidity''),
            (''pressure_entity'', ''sensor.pressure''),
            (''calculation_method'', ''enhanced'')]\<rparr>]"
  by (simp add: run_defs float_of_digits_examples pressure_reading_def)

text \<open>
  C4, amended. When the pressure reading of the cycle is present, neither unavailable
  nor unknown, and not numeric, while temperature and humidity are numeric, the update
  marks the result unavailable, clears the value and logs the error
  \<^verbatim>\<open>Invalid numeric values\<close> with the three state strings.
\<close>

theorem non_numeric_pressure_unavailable:
  assumes "states (temp_entity_id self) = Some ts"
    and "states (humidity_entity_id self) = Some hs"
    and "\<not> unavailable_or_unknown (state ts)"
    and "\<not> unavailable_or_unknown (state hs)"
    and "float (state ts) = Some t"
    and "float (state hs) = Some h"
    and "pressure_reading states self = Some ps"
    and "float (state ps) = None"
    and "s' = async_update_humidex float states self"
  shows "attr_available s' = False \<and> attr_native_value s' = None
       \<and> last (logged s') = (ERROR, Invalid_numeric_values (state ts) (state hs) (state ps))
       \<and> written s' = written self @
            [\<lparr>native_value = None, available = False,
              state_attributes = extra_state_attributes s'\<rparr>]"
proof -
  have "parse_values float ts hs (pressure_reading states self) = None"
    using parse_values_reading [OF assms(5,6), of states self] assms(7,8) by simp
  then have u: "s' = set_unavailable
       (emit ERROR (Invalid_numeric_values (state ts) (state hs) (state ps))
          (fst (check_pressure_state (fetch_pressure_state states self) self)))"
    using assms by (simp add: update_not_numeric)
  have a: "attr_available s' = False" "attr_native_value s' = None"
    "last (logged s') = (ERROR, Invalid_numeric_values (state ts) (state hs) (state ps))"
    unfolding u by (simp_all add: set_unavailable_fields emit_fields)
  have "written s' = written self @
            [\<lparr>native_value = attr_native_value s', available = attr_available s',
              state_attributes = extra_state_attributes s'\<rparr>]"
    unfolding assms(9) by (rule update_written)
  with a show ?thesis by simp
qed

theorem non_numeric_pressure_unavailable_witness:
  "readings_of ''30'' ''60'' (Some ''abc'') (temp_entity_id sensor_with_pressure)
     = Some (reading ''30'')
   \<and> readings_of ''30'' ''60'' (Some ''abc'') (humidity_entity_id sensor_with_pressure)
     = Some (reading ''60'')
   \<and> \<not> unavailable_or_unknown (state (reading ''30''))
   \<and> \<not> unavailable_or_unknown (state (reading ''60''))
   \<and> float_of_digits (state (reading ''30'')) = Some 30
   \<and> float_of_digits (state (reading ''60'')) = Some 60
   \<and> pressure_reading (readings_of ''30'' ''60'' (Some ''abc'')) sensor_with_pressure
     = Some (reading ''abc'')
   \<and> float_of_digits (state (reading ''abc'')) = None
   \<and> attr_available (async_update_humidex float_of_digits
        (readings_of ''30'' ''60'' (Some ''abc'')) sensor_with_pressure) = False
   \<and> last (logged (async_update_humidex float_of_digits
        (readings_of ''30'' ''60'' (Some ''abc'')) sensor_with_pressure))
     = (ERROR, Invalid_numeric_values ''30'' ''60'' ''abc'')"
proof -
  have h: "readings_of ''30'' ''60'' (Some ''abc'') (temp_entity_id sensor_with_pressure)
       = Some (reading ''30'')"
    "readings_of ''30'' ''60'' (Some ''abc'') (humidity_entity_id sensor_with_pressure)
       = Some (reading ''60'')"
    "\<not> unavailable_or_unknown (state (reading ''30''))"
    "\<not> unavailable_or_unknown (state (reading ''60''))"
    "float_of_digits (state (reading ''30'')) = Some 30"
    "float_of_digits (state (reading ''60'')) = Some 60"
    "pressure_reading (readings_of ''30'' ''60'' (Some ''abc'')) sensor_with_pressure
       = Some (reading ''abc'')"
    "float_of_digits (state (reading ''abc'')) = None"
    by (simp_all add: run_defs float_of_digits_examples pressure_reading_def)
  note t = non_numeric_pressure_unavailable [OF h refl]
  have s: "state (reading ''30'') = ''30''" "state (reading ''60'') = ''60''"
    "state (reading ''abc'') = ''abc''"
    by (simp_all add: reading_def)
  from t have "attr_available (async_update_humidex float_of_digits
        (readings_of ''30'' ''60'' (Some ''abc'')) sensor_with_pressure) = False
     \<and> last (logged (async_update_humidex float_of_digits
        (readings_of ''30'' ''60'' (Some ''abc'')) sensor_with_pressure))
       = (ERROR, Invalid_numeric_values ''30'' ''60'' ''abc'')"
    unfolding s by blast
  with h show ?thesis by blast
qed

subsection \<open>Missing readings\<close>

text \<open>
  The claim C5 as stated fails for the pressure entity: it is configured, Home Assistant
  has no state for it, and the update with temperature 0 and humidity 100 publishes an
  available result by the standard method and logs no warning.
\<close>

theorem missing_pressure_reading_counterexample:
  "readings_of ''0'' ''100'' None ''sensor.pressure'' = None
   \<and> pressure_entity_id sensor_with_pressure = Some ''sensor.pressure''
   \<and> attr_available (async_update_humidex float_of_digits
        (readings_of ''0'' ''100'' None) sensor_with_pressure)
   \<and> logged (async_update_humidex float_of_digits
        (readings_of ''0'' ''100'' None) sensor_with_pressure)
     = [(DEBUG, Initialized ''Humidex'' ''sensor.temperature'' ''sensor.humidity''
           (Some ''sensor.pressure'')),
        (DEBUG, Calculated_humidex (- 2.2) ''standard'' 0 100 None)]"
  by (simp add: run_defs float_of_digits_examples calculate_humidex_0_100)

text \<open>
  C5, amended. When the temperature entity or the humidity entity has no state at all,
  the update marks the result unavailable, clears the value and logs a warning that
  names the missing entity.
\<close>

theorem missing_required_reading_unavailable:
  assumes "states (temp_entity_id self) = None \<or> states (humidity_entity_id self) = None"
    and "s' = async_update_humidex float states self"
  shows "attr_available s' = False \<and> attr_native_value s' = None
       \<and> logged s' = logged self @
            [(WARNING,
              if states (temp_entity_id self) = None
              then Temperature_entity_not_found (temp_entity_id self)
              else Humidity_entity_not_found (humidity_entity_id self))]
       \<and> written s' = written self @
            [\<lparr>native_value = None, available = False,
              state_attributes = extra_state_attributes s'\<rparr>]"
proof -
  have a: "attr_available s' = False \<and> attr_native_value s' = None
       \<and> logged s' = logged self @
            [(WARNING,
              if states (temp_entity_id self) = None
              then Temperature_entity_not_found (temp_entity_id self)
              else Humidity_entity_not_found (humidity_entity_id self))]"
  proof (cases "states (temp_entity_id self)")
    case None
    then show ?thesis unfolding assms(2)
      by (simp add: update_no_temperature set_unavailable_fields emit_fields)
  next
    case (Some ts)
    with assms(1) have "states (humidity_entity_id self) = None" by simp
    with Some show ?thesis unfolding assms(2)
      by (simp add: update_no_humidity set_unavailable_fields emit_fields)
  qed
  have "written s' = written self @
            [\<lparr>native_value = attr_native_value s', available = attr_available s',
              state_attributes = extra_state_attributes s'\<rparr>]"
    unfolding assms(2) by (rule update_written)
  with a show ?thesis by simp
qed

theorem missing_required_reading_unavailable_witness:
  "((Map.empty :: string \<rightharpoonup> State) (temp_entity_id sensor_without_pressure) = None
      \<or> (Map.empty :: string \<rightharpoonup> State) (humidity_entity_id sensor_without_pressure) = None)
   \<and> attr_available (async_update_humidex float_of_digits Map.empty sensor_without_pressure)
       = False
   \<and> logged (async_update_humidex float_of_digits Map.empty sensor_without_pressure)
       = [(DEBUG, Initialized ''Humidex'' ''sensor.temperature'' ''sensor.humidity'' None),
          (WARNING, Temperature_entity_not_found ''sensor.temperature'')]"
proof -
  have h: "(Map.empty :: string \<rightharpoonup> State) (temp_entity_id sensor_without_pressure) = None
      \<or> (Map.empty :: string \<rightharpoonup> State) (humidity_entity_id sensor_without_pressure) = None"
    by simp
  note t = missing_required_reading_unavailable [OF h refl, of float_of_digits]
  from t have a: "attr_available
      (async_update_humidex float_of_digits Map.empty sensor_without_pressure) = False"
    by blast
  from t have "logged (async_update_humidex float_of_digits Map.empty sensor_without_pressure)
       = logged sensor_without_pressure @
            [(WARNING,
              if (Map.empty :: string \<rightharpoonup> State) (temp_entity_id sensor_without_pressure) = None
              then Temperature_entity_not_found (temp_entity_id sensor_without_pressure)
              else Humidity_entity_not_found (humidity_entity_id sensor_without_pressure))]"
    by blast
  then have l: "logged (async_update_humidex float_of_digits Map.empty sensor_without_pressure)
       = [(DEBUG, Initialized ''Humidex'' ''sensor.temperature'' ''sensor.humidity'' None),
          (WARNING, Temperature_entity_not_found ''sensor.temperature'')]"
    by (simp add: sensor_without_pressure_def HumidexSensor_init_def)
  from h a l show ?thesis by blast
qed

subsection \<open>Monotonicity in the humidity\<close>

lemma standard_exponent_mono:
  fixes T RH1 RH2 :: real
  assumes "- 50 \<le> T" "0 \<le> RH1" "RH1 \<le> RH2"
  shows "5417.7530 * ((1 / 273.15) - (1 / (T - ((100 - RH1) / 5) + 273.15)))
       \<le> 5417.7530 * ((1 / 273.15) - (1 / (T - ((100 - RH2) / 5) + 273.15)))"
proof -
  have p1: "0 < T - ((100 - RH1) / 5) + 273.15" using assms by (simp add: field_simps)
  have le: "T - ((100 - RH1) / 5) + 273.15 \<le> T - ((100 - RH2) / 5) + 273.15"
    using assms by (simp add: field_simps)
  have "1 / (T - ((100 - RH2) / 5) + 273.15) \<le> 1 / (T - ((100 - RH1) / 5) + 273.15)"
    by (rule frac_le) (use p1 le in simp_all)
  then show ?thesis by simp
qed

text \<open>
  C9. At a fixed validated temperature, and a fixed valid pressure for the enhanced
  method, a higher humidity never gives a lower humidex: for validated humidities
  \<open>RH1 \<le> RH2\<close> both calculations return, by the same method, and the value at
  \<open>RH1\<close> is at most the value at \<open>RH2\<close>. The pressure \<open>P\<close> is absent for the standard
  method and present for the enhanced one.
\<close>

theorem humidex_monotone_in_humidity:
  assumes "fst (validate_sensor_values T RH1 P)"
    and "fst (validate_sensor_values T RH2 P)"
    and "RH1 \<le> RH2"
  shows "\<exists>v1 v2 m. calculate_humidex T RH1 P = Inr (v1, m)
           \<and> calculate_humidex T RH2 P = Inr (v2, m) \<and> v1 \<le> v2"
proof -
  have r: "- 50 \<le> T" "0 \<le> RH1" "0 \<le> RH2"
    using assms by (simp_all add: validate_sensor_values_iff)
  show ?thesis
  proof (cases P)
    case None
    have "exp (5417.7530 * ((1 / 273.15) - (1 / (T - ((100 - RH1) / 5) + 273.15))))
        \<le> exp (5417.7530 * ((1 / 273.15) - (1 / (T - ((100 - RH2) / 5) + 273.15))))"
      using standard_exponent_mono [OF r(1,2) assms(3)] by simp
    then have "T + 0.5555 * (6.11 * exp (5417.7530 *
           ((1 / 273.15) - (1 / (T - ((100 - RH1) / 5) + 273.15)))) - 10)
        \<le> T + 0.5555 * (6.11 * exp (5417.7530 *
           ((1 / 273.15) - (1 / (T - ((100 - RH2) / 5) + 273.15)))) - 10)"
      by simp
    then have "py_round (T + 0.5555 * (6.11 * exp (5417.7530 *
           ((1 / 273.15) - (1 / (T - ((100 - RH1) / 5) + 273.15)))) - 10)) 1
        \<le> py_round (T + 0.5555 * (6.11 * exp (5417.7530 *
           ((1 / 273.15) - (1 / (T - ((100 - RH2) / 5) + 273.15)))) - 10)) 1"
      by (rule py_round_mono)
    with calculate_humidex_standard [OF r(1,2)] calculate_humidex_standard [OF r(1,3)]
    show ?thesis unfolding None by blast
  next
    case (Some p)
    have b: "0 \<le> p" using assms(1) Some by (simp add: validate_sensor_values_iff)
    have "(RH1 / 100.0) * (6.1078 * exp ((17.27 * T) / (T + 237.3))) * (p / 1013.25)
        \<le> (RH2 / 100.0) * (6.1078 * exp ((17.27 * T) / (T + 237.3))) * (p / 1013.25)"
      using assms(3) b by (intro mult_right_mono) simp_all
    then have "T + 0.5555 * ((RH1 / 100.0) * (6.1078 * exp ((17.27 * T) / (T + 237.3)))
           * (p / 1013.25) - 10)
        \<le> T + 0.5555 * ((RH2 / 100.0) * (6.1078 * exp ((17.27 * T) / (T + 237.3)))
           * (p / 1013.25) - 10)"
      by simp
    then have "py_round (T + 0.5555 * ((RH1 / 100.0) * (6.1078 * exp ((17.27 * T) / (T + 237.3)))
           * (p / 1013.25) - 10)) 1
        \<le> py_round (T + 0.5555 * ((RH2 / 100.0) * (6.1078 * exp ((17.27 * T) / (T + 237.3)))
           * (p / 1013.25) - 10)) 1"
      by (rule py_round_mono)
    with calculate_humidex_enhanced [OF r(1), of RH1 p] calculate_humidex_enhanced [OF r(1), of RH2 p]
    show ?thesis unfolding Some by blast
  qed
qed

theorem humidex_monotone_in_humidity_witness:
  "fst (validate_sensor_values 0 50 (Some 1000))
   \<and> fst (validate_sensor_values 0 100 (Some 1000))
   \<and> (50 :: real) \<le> 100
   \<and> (\<exists>v1 v2 m. calculate_humidex 0 50 (Some 1000) = Inr (v1, m)
           \<and> calculate_humidex 0 100 (Some 1000) = Inr (v2, m) \<and> v1 \<le> v2)
   \<and> fst (validate_sensor_values 30 40 None)
   \<and> fst (validate_sensor_values 30 60 None)
   \<and> (40 :: real) \<le> 60
   \<and> (\<exists>v1 v2 m. calculate_humidex 30 40 None = Inr (v1, m)
           \<and> calculate_humidex 30 60 None = Inr (v2, m) \<and> v1 \<le> v2)"
proof -
  have a: "fst (validate_sensor_values 0 50 (Some 1000))"
    "fst (validate_sensor_values 0 100 (Some 1000))" "(50 :: real) \<le> 100"
    by (simp_all add: validate_sensor_values_def)
  have b: "fst (validate_sensor_values 30 40 None)"
    "fst (validate_sensor_values 30 60 None)" "(40 :: real) \<le> 60"
    by (simp_all add: validate_sensor_values_def)
  from a b humidex_monotone_in_humidity [OF a] humidex_monotone_in_humidity [OF b]
  show ?thesis by (intro conjI)
qed

subsection \<open>Scenario A: 30 degrees, 60 percent, no pressure\<close>

lemma exponent_30_60:
  "(1.4784 :: real) \<le> 5417.7530 * ((1 / 273.15) - (1 / (22 + 273.15)))"
  "5417.7530 * ((1 / 273.15) - (1 / (22 + 273.15))) \<le> (1.4785 :: real)"
  by simp_all

lemma exp_30_60_bounds:
  "4.385 \<le> exp (5417.7530 * ((1 / 273.15) - (1 / (22 + 273.15))) :: real)"
  "exp (5417.7530 * ((1 / 273.15) - (1 / (22 + 273.15))) :: real) \<le> 4.387"
proof -
  have "(4.385 :: real) \<le> exp 1.4784" by (rule exp_14784_lower)
  also have "\<dots> \<le> exp (5417.7530 * ((1 / 273.15) - (1 / (22 + 273.15))))"
    using exponent_30_60(1) by (simp only: exp_le_cancel_iff)
  finally show "4.385 \<le> exp (5417.7530 * ((1 / 273.15) - (1 / (22 + 273.15))) :: real)" .
  have "exp (5417.7530 * ((1 / 273.15) - (1 / (22 + 273.15))) :: real) \<le> exp 1.4785"
    using exponent_30_60(2) by (simp only: exp_le_cancel_iff)
  also have "\<dots> \<le> 4.387" by (rule exp_14785_upper)
  finally show "exp (5417.7530 * ((1 / 273.15) - (1 / (22 + 273.15))) :: real) \<le> 4.387" .
qed

lemma calculate_humidex_30_60:
  "calculate_humidex 30 60 None = Inr (39.3, ''standard'')"
proof -
  define E :: real where "E = exp (5417.7530 * ((1 / 273.15) - (1 / (22 + 273.15))))"
  have E: "4.385 \<le> E" "E \<le> 4.387"
    unfolding E_def by (rule exp_30_60_bounds)+
  have "30 - ((100 - 60) / 5) + 273.15 = (22 + 273.15 :: real)" by simp
  then have c: "calculate_humidex 30 60 None = Inr (py_round (30 + 0.5555 * (6.11 * E - 10)) 1,
      ''standard'')"
    unfolding E_def using calculate_humidex_standard [of 30 60] by simp
  have "py_round (30 + 0.5555 * (6.11 * E - 10)) 1 = of_int 393 / 10"
    by (rule py_round_1_eq) (use E in simp_all)
  then show ?thesis using c by simp
qed

text \<open>
  The claim C3 as stated fails: the vapour pressure is at least 26.75, not about 26.4,
  the rounded humidex is 39.3, not about 39.1, and 39.3 lies above 39, in the band
  very uncomfortable.
\<close>

theorem scenario_A_level_counterexample:
  "26.75 \<le> 6.11 * exp (5417.7530 * ((1 / 273.15) - (1 / (22 + 273.15))) :: real)
   \<and> calculate_humidex 30 60 None = Inr (39.3, ''standard'')
   \<and> get_comfort_level 39.3 = ''very_uncomfortable''"
proof -
  have "26.75 \<le> 6.11 * exp (5417.7530 * ((1 / 273.15) - (1 / (22 + 273.15))) :: real)"
    using exp_30_60_bounds(1) by simp
  moreover have "get_comfort_level 39.3 = ''very_uncomfortable''"
    by (simp add: get_comfort_level_def)
  ultimately show ?thesis using calculate_humidex_30_60 by (intro conjI)
qed

text \<open>
  C3, amended. For temperature 30, humidity 60 and no pressure the update uses the
  standard method: the dew point is 22, the vapour pressure is
  \<open>6.11 * exp (5417.753 * (1/273.15 - 1/295.15))\<close>, which rounds to 26.8, the
  published humidex is 39.3 and the comfort level is very uncomfortable.
\<close>

theorem scenario_A_published:
  "calculate_dew_point 30 60 = 22
   \<and> calculate_vapor_pressure_standard 30 60
       = Inr (6.11 * exp (5417.7530 * ((1 / 273.15) - (1 / (22 + 273.15)))))
   \<and> 26.75 \<le> 6.11 * exp (5417.7530 * ((1 / 273.15) - (1 / (22 + 273.15))) :: real)
   \<and> 6.11 * exp (5417.7530 * ((1 / 273.15) - (1 / (22 + 273.15))) :: real) < 26.85
   \<and> written (async_update_humidex float_of_digits
        (readings_of ''30'' ''60'' None) sensor_without_pressure)
     = [\<lparr>native_value = Some 39.3, available = True,
         state_attributes =
           [(''temperature_entity'', ''sensor.temperature''),
            (''humidity_entity'', ''sensor.humidity''),
            (''calculation_method'', ''standard''),
            (''comfort_level'', ''very_uncomfortable''),
            (''comfort_description'', ''Very uncomfortable'')]\<rparr>]
   \<and> last (logged (async_update_humidex float_of_digits
        (readings_of ''30'' ''60'' None) sensor_without_pressure))
     = (DEBUG, Calculated_humidex 39.3 ''standard'' 30 60 None)"
proof -
  have d: "calculate_dew_point 30 60 = 22"
    by (simp add: calculate_dew_point_def)
  have v: "calculate_vapor_pressure_standard 30 60
       = Inr (6.11 * exp (5417.7530 * ((1 / 273.15) - (1 / (22 + 273.15)))))"
    unfolding calculate_vapor_pressure_standard_def d Let_def by simp
  have e: "26.75 \<le> 6.11 * exp (5417.7530 * ((1 / 273.15) - (1 / (22 + 273.15))) :: real)"
    "6.11 * exp (5417.7530 * ((1 / 273.15) - (1 / (22 + 273.15))) :: real) < 26.85"
    using exp_30_60_bounds by simp_all
  have w: "written (async_update_humidex float_of_digits
        (readings_of ''30'' ''60'' None) sensor_without_pressure)
     = [\<lparr>native_value = Some 39.3, available = True,
         state_attributes =
           [(''temperature_entity'', ''sensor.temperature''),
            (''humidity_entity'', ''sensor.humidity''),
            (''calculation_method'', ''standard''),
            (''comfort_level'', ''very_uncomfortable''),
            (''comfort_description'', ''Very uncomfortable'')]\<rparr>]"
    by (simp add: run_defs float_of_digits_examples calculate_humidex_30_60)
  have l: "last (logged (async_update_humidex float_of_digits
        (readings_of ''30'' ''60'' None) sensor_without_pressure))
     = (DEBUG, Calculated_humidex 39.3 ''standard'' 30 60 None)"
    by (simp add: run_defs float_of_digits_examples calculate_humidex_30_60)
  from d v e w l show ?thesis by (intro conjI)
qed

subsection \<open>Rounding to the nearest double\<close>

lemma round_half_even_error: "\<bar>of_int (round_half_even y) - y\<bar> \<le> 1 / 2"
proof -
  have "of_int \<lfloor>y\<rfloor> \<le> y" "y < of_int \<lfloor>y\<rfloor> + 1" by linarith+
  then show ?thesis
    by (auto simp: round_half_even_def Let_def abs_le_iff)
qed

lemma fl_error: "\<bar>fl x - x\<bar> \<le> \<bar>x\<bar> / 2 ^ 53"
proof (cases "x = 0")
  case True
  then show ?thesis by (simp add: fl_def)
next
  case False
  define k where "k = \<lfloor>log 2 \<bar>x\<bar>\<rfloor>"
  define s :: real where "s = 2 powr of_int (k - 52)"
  have s: "0 < s" by (simp add: s_def)
  have "2 powr of_int k \<le> \<bar>x\<bar>"
    using False floor_log_eq_powr_iff [of "\<bar>x\<bar>" 2 k] by (simp add: k_def)
  moreover have "2 powr of_int k = 2 ^ 52 * s"
    by (simp add: s_def powr_diff)
  ultimately have lo: "2 ^ 52 * s \<le> \<bar>x\<bar>" by simp
  have "\<bar>of_int (round_half_even (x / s)) - x / s\<bar> \<le> 1 / 2"
    by (rule round_half_even_error)
  then have "\<bar>of_int (round_half_even (x / s)) - x / s\<bar> * s \<le> 1 / 2 * s"
    using s by (intro mult_right_mono) simp_all
  moreover have "\<bar>of_int (round_half_even (x / s)) - x / s\<bar> * s
      = \<bar>of_int (round_half_even (x / s)) * s - x\<bar>"
  proof -
    have "\<bar>of_int (round_half_even (x / s)) - x / s\<bar> * s
        = \<bar>(of_int (round_half_even (x / s)) - x / s) * s\<bar>"
      using s by (simp add: abs_mult)
    also have "(of_int (round_half_even (x / s)) - x / s) * s
        = of_int (round_half_even (x / s)) * s - x"
      using s by (simp add: left_diff_distrib)
    finally show ?thesis .
  qed
  ultimately have "\<bar>of_int (round_half_even (x / s)) * s - x\<bar> \<le> s / 2" by simp
  also have "\<dots> \<le> \<bar>x\<bar> / 2 ^ 53" using lo by simp
  finally show ?thesis using False
    by (simp add: fl_def Let_def k_def s_def)
qed

lemma fl_eq:
  assumes "2 ^ 52 \<le> \<bar>x\<bar> * 2 ^ a / 2 ^ b" "\<bar>x\<bar> * 2 ^ a / 2 ^ b < 2 ^ 53"
  shows "fl x = of_int (round_half_even (x * 2 ^ a / 2 ^ b)) * 2 ^ b / 2 ^ a"
proof -
  have nz: "x \<noteq> 0" using assms(1) by auto
  have p: "(2::real) powr of_int (int b - int a) = 2 ^ b / 2 ^ a"
    by (simp add: powr_diff powr_realpow)
  have "2 powr of_int (52 + int b - int a) = 2 ^ 52 * (2 ^ b / 2 ^ a :: real)"
    by (simp add: powr_diff powr_add powr_realpow)
  moreover have "2 powr (of_int (52 + int b - int a) + 1) = 2 ^ 53 * (2 ^ b / 2 ^ a :: real)"
    by (simp add: powr_diff powr_add powr_realpow)
  moreover have "2 ^ 52 * (2 ^ b / 2 ^ a) \<le> \<bar>x\<bar>" "\<bar>x\<bar> < 2 ^ 53 * (2 ^ b / 2 ^ a)"
    using assms by (simp_all add: field_simps)
  ultimately have "\<lfloor>log 2 \<bar>x\<bar>\<rfloor> = 52 + int b - int a"
    using nz floor_log_eq_powr_iff [of "\<bar>x\<bar>" 2 "52 + int b - int a"] by simp
  then have "\<lfloor>log 2 \<bar>x\<bar>\<rfloor> - 52 = int b - int a" by simp
  then have e: "\<lfloor>log 2 \<bar>x\<bar>\<rfloor> - 52 = int b - int a" .
  have "fl x = of_int (round_half_even (x / 2 powr of_int (\<lfloor>log 2 \<bar>x\<bar>\<rfloor> - 52)))
      * 2 powr of_int (\<lfloor>log 2 \<bar>x\<bar>\<rfloor> - 52)"
    using nz by (simp only: fl_def Let_def if_False)
  also have "\<dots> = of_int (round_half_even (x / (2 ^ b / 2 ^ a))) * (2 ^ b / 2 ^ a)"
    by (simp only: e p)
  also have "\<dots> = of_int (round_half_even (x * 2 ^ a / 2 ^ b)) * 2 ^ b / 2 ^ a"
    by simp
  finally show ?thesis .
qed

lemma fl_0: "fl 0 = 0"
  by (simp add: fl_def)

lemma fl_1: "fl 1 = 1"
  by (rule trans [OF fl_eq [of _ 52 0]]) (simp_all add: round_half_even_def Let_def)

lemma fl_16_410895: "fl 16.410895 = 4619256287926021 / 2 ^ 48"
  using fl_eq [of "16.410895" 48 0] by (simp add: round_half_even_def Let_def)

lemma fl_17_945525: "fl 17.945525 = 5051216231435495 / 2 ^ 48"
  using fl_eq [of "17.945525" 48 0] by (simp add: round_half_even_def Let_def)

lemma fl_273_15: "fl 273.15 = 2402652809016115 / 2 ^ 43"
  using fl_eq [of "273.15" 44 0] by (simp add: round_half_even_def Let_def)

lemma fl_6_11: "fl 6.11 = 6879248430808433 / 2 ^ 50"
  using fl_eq [of "6.11" 50 0] by (simp add: round_half_even_def Let_def)

lemma fl_0_5555: "fl 0.5555 = 5003499186008621 / 2 ^ 53"
  using fl_eq [of "0.5555" 53 0] by (simp add: round_half_even_def Let_def)

lemma fl_14_2: "fl 14.2 = 3996944669291315 / 2 ^ 48"
  using fl_eq [of "14.2" 49 0] by (simp add: round_half_even_def Let_def)

lemma fl_14_3: "fl 14.3 = 4025092166962381 / 2 ^ 48"
  using fl_eq [of "14.3" 49 0] by (simp add: round_half_even_def Let_def)

lemma exp_double_accurate: "\<forall>x. \<bar>exp_double x - exp x\<bar> \<le> exp x / 2 ^ 52"
proof
  fix x :: real
  have "\<bar>fl (exp x) - exp x\<bar> \<le> \<bar>exp x\<bar> / 2 ^ 53" by (rule fl_error)
  also have "\<dots> \<le> exp x / 2 ^ 52" by (simp add: field_simps)
  finally show "\<bar>exp_double x - exp x\<bar> \<le> exp x / 2 ^ 52" by (simp only: exp_double_def)
qed

subsection \<open>Propagation of rounding errors\<close>

lemma fl_round_err:
  assumes "\<bar>z' - z\<bar> \<le> ez" "\<bar>z\<bar> \<le> Z"
  shows "\<bar>fl z' - z\<bar> \<le> ez + (Z + ez) / 2 ^ 53"
proof -
  have "\<bar>z'\<bar> \<le> Z + ez" using assms by linarith
  then have "\<bar>z'\<bar> / 2 ^ 53 \<le> (Z + ez) / 2 ^ 53" by (simp add: divide_right_mono)
  with fl_error [of z'] have "\<bar>fl z' - z'\<bar> \<le> (Z + ez) / 2 ^ 53" by linarith
  with assms(1) show ?thesis by linarith
qed

lemma mul_err:
  fixes a b :: real
  assumes "\<bar>a' - a\<bar> \<le> ea" "\<bar>b' - b\<bar> \<le> eb" "\<bar>a\<bar> \<le> A" "\<bar>b\<bar> \<le> B"
  shows "\<bar>a' * b' - a * b\<bar> \<le> (A + ea) * eb + ea * B"
proof -
  have a': "\<bar>a'\<bar> \<le> A + ea" using assms by linarith
  have "a' * b' - a * b = a' * (b' - b) + (a' - a) * b" by (simp add: algebra_simps)
  then have "\<bar>a' * b' - a * b\<bar> \<le> \<bar>a'\<bar> * \<bar>b' - b\<bar> + \<bar>a' - a\<bar> * \<bar>b\<bar>"
    by (metis abs_mult abs_triangle_ineq)
  also have "\<bar>a'\<bar> * \<bar>b' - b\<bar> \<le> (A + ea) * eb"
    using a' assms(2) by (intro mult_mono) (auto intro: order_trans [OF abs_ge_zero])
  also have "\<bar>a' - a\<bar> * \<bar>b\<bar> \<le> ea * B"
    using assms(1,4) by (intro mult_mono) (auto intro: order_trans [OF abs_ge_zero])
  finally show ?thesis by simp
qed

lemma inverse_err:
  fixes b b' :: real
  assumes "0 < m" "m \<le> b" "m \<le> b'" "\<bar>b' - b\<bar> \<le> eb"
  shows "\<bar>1 / b' - 1 / b\<bar> \<le> eb / (m * m)"
proof -
  have pos: "0 < b" "0 < b'" using assms by linarith+
  have mm: "m * m \<le> b * b'" using assms by (intro mult_mono) simp_all
  have "1 / b' - 1 / b = (b - b') / (b * b')"
    using pos by (simp add: field_simps)
  then have "\<bar>1 / b' - 1 / b\<bar> = \<bar>b' - b\<bar> / (b * b')"
    using pos by (simp add: abs_minus_commute)
  also have "\<dots> \<le> eb / (m * m)"
    using assms mm pos by (intro frac_le) (auto intro: order_trans [OF abs_ge_zero])
  finally show ?thesis .
qed


lemma exp_diff_err:
  fixes t :: real
  assumes "\<bar>t\<bar> \<le> 1"
  shows "\<bar>exp t - 1\<bar> \<le> 2 * \<bar>t\<bar>"
proof (cases "0 \<le> t")
  case True
  then have "exp t \<le> 1 + t + t\<^sup>2" using assms by (intro exp_bound) simp_all
  moreover have "t\<^sup>2 \<le> t" using True assms by (simp add: power2_eq_square mult_left_le)
  moreover have "1 \<le> exp t" using True by simp
  ultimately show ?thesis using True by simp
next
  case False
  then have "exp t \<le> 1" by simp
  moreover have "1 + t \<le> exp t" by (rule exp_ge_add_one_self)
  ultimately show ?thesis using False by linarith
qed

lemma exp_err:
  fixes x x' :: real
  assumes "\<bar>x' - x\<bar> \<le> ex" "ex \<le> 1"
    and "\<bar>E - exp x'\<bar> \<le> exp x' / 2 ^ 52"
  shows "\<bar>E - exp x\<bar> \<le> exp x * (2 * ex + 3 / 2 ^ 52)"
proof -
  have t: "\<bar>x' - x\<bar> \<le> 1" using assms by linarith
  have "exp x' - exp x = exp x * (exp (x' - x) - 1)"
    by (simp add: exp_diff right_diff_distrib)
  then have "\<bar>exp x' - exp x\<bar> = exp x * \<bar>exp (x' - x) - 1\<bar>"
    by (simp add: abs_mult)
  also have "\<dots> \<le> exp x * (2 * ex)"
    using exp_diff_err [OF t] assms(1) by (intro mult_left_mono) simp_all
  finally have d: "\<bar>exp x' - exp x\<bar> \<le> exp x * (2 * ex)" .
  then have "exp x' \<le> exp x + exp x * (2 * ex)" by linarith
  also have "\<dots> \<le> exp x + exp x * 2"
    using assms(2) by (intro add_left_mono mult_left_mono) simp_all
  finally have "exp x' \<le> 3 * exp x" by simp
  then have "exp x' / 2 ^ 52 \<le> 3 * exp x / 2 ^ 52" by (simp add: divide_right_mono)
  with assms(3) d have "\<bar>E - exp x\<bar> \<le> 3 * exp x / 2 ^ 52 + exp x * (2 * ex)" by linarith
  then show ?thesis by (simp add: algebra_simps)
qed

lemma py_round_err: "\<bar>py_round x 1 - x\<bar> \<le> 1 / 20"
proof -
  have "\<bar>of_int (round_half_even (x * 10)) - x * 10\<bar> \<le> 1 / 2"
    by (rule round_half_even_error)
  then show ?thesis by (simp add: py_round_def abs_le_iff field_simps)
qed

lemma exp_le_3_pow: "x \<le> real n \<Longrightarrow> exp x \<le> 3 ^ n"
proof -
  assume "x \<le> real n"
  then have "exp x \<le> exp (real n * 1)" by simp
  also have "\<dots> = exp 1 ^ n" by (rule exp_of_nat_mult)
  also have "\<dots> \<le> 3 ^ n" by (intro power_mono exp_le) simp
  finally show ?thesis .
qed

subsection \<open>The error of the calculation in doubles\<close>

lemma standard_vapor_pressure_double_error:
  fixes T RH :: real
  assumes T: "- 50 \<le> T" "T \<le> 70" and RH: "0 \<le> RH" "RH \<le> 100"
    and acc: "\<And>x. \<bar>math_exp x - exp x\<bar> \<le> exp x / 2 ^ 52"
  shows "\<exists>vp. calculate_vapor_pressure_standard_double math_exp T RH = Inr vp
           \<and> \<bar>vp - 6.11 * exp (5417.7530 * (1 / 273.15 - 1 / (T - (100 - RH) / 5 + 273.15)))\<bar>
               \<le> 10 ^ 6 / 2 ^ 53
           \<and> \<bar>6.11 * exp (5417.7530 * (1 / 273.15 - 1 / (T - (100 - RH) / 5 + 273.15)))\<bar>
               \<le> 1485"
proof -
  define z1 where "z1 = 100 - RH"
  define q where "q = z1 / 5"
  define Td where "Td = T - q"
  define S where "S = Td + 273.15"
  define iS where "iS = 1 / S"
  define D where "D = 1 / 273.15 - iS"
  define X where "X = 5417.7530 * D"
  define a1 where "a1 = fl (100 - RH)"
  define a2 where "a2 = fl (a1 / 5)"
  define dw where "dw = fl (T - a2)"
  define k273 where "k273 = fl 273.15"
  define s where "s = fl (dw + k273)"
  define r1 where "r1 = fl (1 / k273)"
  define r2 where "r2 = fl (1 / s)"
  define d where "d = fl (r1 - r2)"
  define k5 where "k5 = fl 5417.7530"
  define x where "x = fl (k5 * d)"
  define E where "E = math_exp x"
  define k6 where "k6 = fl 6.11"
  define vp where "vp = fl (k6 * E)"
  have z1: "0 \<le> z1" "z1 \<le> 100" using RH by (simp_all add: z1_def)
  have q: "0 \<le> q" "q \<le> 20" using z1 by (simp_all add: q_def)
  have Td: "- 70 \<le> Td" "Td \<le> 70" using T q by (simp_all add: Td_def)
  have S: "4063 / 20 \<le> S" "S \<le> 6863 / 20" using Td by (simp_all add: S_def)
  have S_pos: "203 \<le> S" using S by simp
  \<comment> \<open>the dew point\<close>
  have "\<bar>fl z1 - z1\<bar> \<le> 0 + (100 + 0) / 2 ^ 53"
    by (rule fl_round_err) (use z1 in simp_all)
  then have e_a1: "\<bar>a1 - z1\<bar> \<le> 100 / 2 ^ 53" by (simp add: a1_def z1_def)
  have "\<bar>a1 / 5 - q\<bar> \<le> 20 / 2 ^ 53" using e_a1 unfolding q_def by linarith
  then have "\<bar>fl (a1 / 5) - q\<bar> \<le> 20 / 2 ^ 53 + (20 + 20 / 2 ^ 53) / 2 ^ 53"
    by (rule fl_round_err) (use q in simp)
  also have "\<dots> \<le> 41 / 2 ^ 53" by simp
  finally have e_a2: "\<bar>a2 - q\<bar> \<le> 41 / 2 ^ 53" by (simp add: a2_def)
  have "\<bar>(T - a2) - Td\<bar> \<le> 41 / 2 ^ 53" using e_a2 unfolding Td_def by linarith
  then have "\<bar>fl (T - a2) - Td\<bar> \<le> 41 / 2 ^ 53 + (70 + 41 / 2 ^ 53) / 2 ^ 53"
    by (rule fl_round_err) (use Td in simp)
  also have "\<dots> \<le> 112 / 2 ^ 53" by simp
  finally have e_dw: "\<bar>dw - Td\<bar> \<le> 112 / 2 ^ 53" by (simp add: dw_def)
  \<comment> \<open>the sum with 273.15\<close>
  have "\<bar>fl 273.15 - 273.15\<bar> \<le> \<bar>273.15\<bar> / 2 ^ 53" by (rule fl_error)
  also have "\<dots> \<le> 274 / 2 ^ 53" by simp
  finally have e_k273: "\<bar>k273 - 273.15\<bar> \<le> 274 / 2 ^ 53" by (simp only: k273_def)
  have "\<bar>(dw + k273) - S\<bar> \<le> 386 / 2 ^ 53" using e_dw e_k273 unfolding S_def by linarith
  then have "\<bar>fl (dw + k273) - S\<bar> \<le> 386 / 2 ^ 53 + (344 + 386 / 2 ^ 53) / 2 ^ 53"
    by (rule fl_round_err) (use S in simp)
  also have "\<dots> \<le> 731 / 2 ^ 53" by simp
  finally have e_s: "\<bar>s - S\<bar> \<le> 731 / 2 ^ 53" by (simp add: s_def)
  have "\<bar>s - S\<bar> \<le> 1 / 10" by (rule order_trans [OF e_s]) simp
  then have s_lo: "203 \<le> s" using S by linarith
  have "\<bar>k273 - 273.15\<bar> \<le> 1 / 10" by (rule order_trans [OF e_k273]) simp
  then have "\<bar>k273 - 5463 / 20\<bar> \<le> 1 / 10" by simp
  then have k_lo: "273 \<le> k273" by linarith
  have s_nz: "s \<noteq> 0" using s_lo by simp
  \<comment> \<open>the two reciprocals and their difference\<close>
  have "\<bar>1 / k273 - 1 / 273.15\<bar> \<le> (274 / 2 ^ 53) / (273 * 273)"
    by (rule inverse_err [OF _ _ k_lo e_k273]) simp_all
  also have "\<dots> \<le> (1 / 200) / 2 ^ 53" by simp
  finally have "\<bar>fl (1 / k273) - 1 / 273.15\<bar>
      \<le> (1 / 200) / 2 ^ 53 + (1 / 200 + (1 / 200) / 2 ^ 53) / 2 ^ 53"
    by (rule fl_round_err) simp
  also have "\<dots> \<le> (1 / 90) / 2 ^ 53" by simp
  finally have e_r1: "\<bar>r1 - 1 / 273.15\<bar> \<le> (1 / 90) / 2 ^ 53" by (simp only: r1_def)
  have "\<bar>1 / s - 1 / S\<bar> \<le> (731 / 2 ^ 53) / (203 * 203)"
    by (rule inverse_err [OF _ S_pos s_lo e_s]) simp
  also have "\<dots> \<le> (1 / 50) / 2 ^ 53" by simp
  finally have i_s: "\<bar>1 / s - iS\<bar> \<le> (1 / 50) / 2 ^ 53" by (simp only: iS_def)
  have iS_hi: "iS \<le> 1 / (4063 / 20)" unfolding iS_def using S by (intro frac_le) simp_all
  have iS_lo: "1 / (6863 / 20) \<le> iS" unfolding iS_def using S by (intro frac_le) simp_all
  have iS: "\<bar>iS\<bar> \<le> 1 / 200" using iS_hi iS_lo by (simp add: abs_le_iff)
  have "\<bar>fl (1 / s) - iS\<bar> \<le> (1 / 50) / 2 ^ 53 + (1 / 200 + (1 / 50) / 2 ^ 53) / 2 ^ 53"
    by (rule fl_round_err [OF i_s iS])
  also have "\<dots> \<le> (1 / 39) / 2 ^ 53" by simp
  finally have e_r2: "\<bar>r2 - iS\<bar> \<le> (1 / 39) / 2 ^ 53" by (simp only: r2_def)
  have D_hi: "D \<le> 3 / 4000" using iS_lo by (simp add: D_def)
  have D_lo: "- (13 / 10000) \<le> D" using iS_hi by (simp add: D_def)
  have D: "\<bar>D\<bar> \<le> 13 / 10000" using D_hi D_lo by (simp add: abs_le_iff)
  have "(1 / 90) / 2 ^ 53 + (1 / 39) / 2 ^ 53 \<le> ((1 / 27) / 2 ^ 53 :: real)" by simp
  then have "\<bar>(r1 - r2) - D\<bar> \<le> (1 / 27) / 2 ^ 53"
    using e_r1 e_r2 unfolding D_def by linarith
  then have "\<bar>fl (r1 - r2) - D\<bar>
      \<le> (1 / 27) / 2 ^ 53 + (13 / 10000 + (1 / 27) / 2 ^ 53) / 2 ^ 53"
    by (rule fl_round_err [OF _ D])
  also have "\<dots> \<le> (1 / 26) / 2 ^ 53" by simp
  finally have e_d: "\<bar>d - D\<bar> \<le> (1 / 26) / 2 ^ 53" by (simp only: d_def)
  \<comment> \<open>the exponent\<close>
  have "\<bar>fl 5417.7530 - 5417.7530\<bar> \<le> \<bar>5417.7530\<bar> / 2 ^ 53" by (rule fl_error)
  also have "\<dots> \<le> 5418 / 2 ^ 53" by simp
  finally have e_k5: "\<bar>k5 - 5417.7530\<bar> \<le> 5418 / 2 ^ 53" by (simp only: k5_def)
  have "\<bar>k5 * d - 5417.7530 * D\<bar>
      \<le> (5418 + 5418 / 2 ^ 53) * ((1 / 26) / 2 ^ 53) + 5418 / 2 ^ 53 * (13 / 10000)"
    by (rule mul_err [OF e_k5 e_d _ D]) simp
  also have "\<dots> \<le> 216 / 2 ^ 53" by simp
  finally have m_x: "\<bar>k5 * d - X\<bar> \<le> 216 / 2 ^ 53" by (simp only: X_def)
  have X_hi: "X \<le> 5" using D_hi by (simp add: X_def)
  have X: "\<bar>X\<bar> \<le> 71 / 10" using D_hi D_lo by (simp add: X_def abs_le_iff)
  have "\<bar>fl (k5 * d) - X\<bar> \<le> 216 / 2 ^ 53 + (71 / 10 + 216 / 2 ^ 53) / 2 ^ 53"
    by (rule fl_round_err [OF m_x X])
  also have "\<dots> \<le> 224 / 2 ^ 53" by simp
  finally have e_x: "\<bar>x - X\<bar> \<le> 224 / 2 ^ 53" by (simp only: x_def)
  \<comment> \<open>the exponential\<close>
  have eX: "exp X \<le> 243" using exp_le_3_pow [of X 5] X_hi by simp
  have "\<bar>math_exp x - exp X\<bar> \<le> exp X * (2 * (224 / 2 ^ 53) + 3 / 2 ^ 52)"
    by (rule exp_err [OF e_x _ acc]) simp
  also have "\<dots> \<le> 243 * (2 * (224 / 2 ^ 53) + 3 / 2 ^ 52)"
    using eX by (intro mult_right_mono) simp_all
  also have "\<dots> \<le> 110322 / 2 ^ 53" by simp
  finally have e_E: "\<bar>E - exp X\<bar> \<le> 110322 / 2 ^ 53" by (simp only: E_def)
  have aeX: "\<bar>exp X\<bar> \<le> 243" using eX by simp
  \<comment> \<open>the vapour pressure\<close>
  have "\<bar>fl 6.11 - 6.11\<bar> \<le> \<bar>6.11\<bar> / 2 ^ 53" by (rule fl_error)
  also have "\<dots> \<le> 7 / 2 ^ 53" by simp
  finally have e_k6: "\<bar>k6 - 6.11\<bar> \<le> 7 / 2 ^ 53" by (simp only: k6_def)
  have "\<bar>k6 * E - 6.11 * exp X\<bar>
      \<le> (7 + 7 / 2 ^ 53) * (110322 / 2 ^ 53) + 7 / 2 ^ 53 * 243"
    by (rule mul_err [OF e_k6 e_E _ aeX]) simp
  also have "\<dots> \<le> 773956 / 2 ^ 53" by simp
  finally have m_vp: "\<bar>k6 * E - 6.11 * exp X\<bar> \<le> 773956 / 2 ^ 53" .
  have b_e: "\<bar>6.11 * exp X\<bar> \<le> 1485" using eX by simp
  have "\<bar>fl (k6 * E) - 6.11 * exp X\<bar> \<le> 773956 / 2 ^ 53 + (1485 + 773956 / 2 ^ 53) / 2 ^ 53"
    by (rule fl_round_err [OF m_vp b_e])
  also have "\<dots> \<le> 10 ^ 6 / 2 ^ 53" by simp
  finally have e_vp: "\<bar>vp - 6.11 * exp X\<bar> \<le> 10 ^ 6 / 2 ^ 53" by (simp only: vp_def)
  have ex_eq: "5417.7530 * (1 / 273.15 - 1 / (T - (100 - RH) / 5 + 273.15)) = X"
    by (simp add: X_def D_def iS_def S_def Td_def q_def z1_def)
  have "calculate_vapor_pressure_standard_double math_exp T RH = Inr vp"
    unfolding calculate_vapor_pressure_standard_double_def calculate_dew_point_double_def Let_def
    using s_nz
    by (simp only: vp_def k6_def E_def x_def k5_def d_def r1_def r2_def s_def k273_def dw_def
        a2_def a1_def if_False)
  with e_vp b_e show ?thesis unfolding ex_eq by blast
qed

lemma humidex_double_error:
  fixes T vp vp' :: real
  assumes T: "- 50 \<le> T" "T \<le> 70"
    and e_vp: "\<bar>vp' - vp\<bar> \<le> 10 ^ 6 / 2 ^ 53"
    and b_vp: "\<bar>vp\<bar> \<le> 1485"
  shows "\<bar>fl (py_round (fl (T + fl (fl 0.5555 * fl (vp' - 10)))) 1)
           - (T + 0.5555 * (vp - 10))\<bar> \<le> 1 / 20 + 1 / 10 ^ 9"
proof -
  define M where "M = vp - 10"
  define m where "m = fl (vp' - 10)"
  define k55 where "k55 = fl 0.5555"
  define P where "P = 0.5555 * M"
  define p where "p = fl (k55 * m)"
  define H where "H = T + P"
  define h where "h = fl (T + p)"
  define r where "r = py_round h 1"
  have M: "\<bar>M\<bar> \<le> 1495" using b_vp unfolding M_def by linarith
  have "\<bar>(vp' - 10) - M\<bar> \<le> 10 ^ 6 / 2 ^ 53" using e_vp unfolding M_def by linarith
  then have "\<bar>fl (vp' - 10) - M\<bar> \<le> 10 ^ 6 / 2 ^ 53 + (1495 + 10 ^ 6 / 2 ^ 53) / 2 ^ 53"
    by (rule fl_round_err [OF _ M])
  also have "\<dots> \<le> 1010000 / 2 ^ 53" by simp
  finally have e_m: "\<bar>m - M\<bar> \<le> 1010000 / 2 ^ 53" by (simp only: m_def)
  have "\<bar>fl 0.5555 - 0.5555\<bar> \<le> \<bar>0.5555\<bar> / 2 ^ 53" by (rule fl_error)
  also have "\<dots> \<le> 1 / 2 ^ 53" by simp
  finally have e_k55: "\<bar>k55 - 0.5555\<bar> \<le> 1 / 2 ^ 53" by (simp only: k55_def)
  have "\<bar>k55 * m - 0.5555 * M\<bar>
      \<le> (1 + 1 / 2 ^ 53) * (1010000 / 2 ^ 53) + 1 / 2 ^ 53 * 1495"
    by (rule mul_err [OF e_k55 e_m _ M]) simp
  also have "\<dots> \<le> 1020000 / 2 ^ 53" by simp
  finally have m_p: "\<bar>k55 * m - P\<bar> \<le> 1020000 / 2 ^ 53" by (simp only: P_def)
  have P: "\<bar>P\<bar> \<le> 831" using M by (simp add: P_def abs_mult)
  have "\<bar>fl (k55 * m) - P\<bar> \<le> 1020000 / 2 ^ 53 + (831 + 1020000 / 2 ^ 53) / 2 ^ 53"
    by (rule fl_round_err [OF m_p P])
  also have "\<dots> \<le> 1030000 / 2 ^ 53" by simp
  finally have e_p: "\<bar>p - P\<bar> \<le> 1030000 / 2 ^ 53" by (simp only: p_def)
  have H: "\<bar>H\<bar> \<le> 901" using T P unfolding H_def by linarith
  have "\<bar>(T + p) - H\<bar> \<le> 1030000 / 2 ^ 53" using e_p unfolding H_def by linarith
  then have "\<bar>fl (T + p) - H\<bar> \<le> 1030000 / 2 ^ 53 + (901 + 1030000 / 2 ^ 53) / 2 ^ 53"
    by (rule fl_round_err [OF _ H])
  also have "\<dots> \<le> 1040000 / 2 ^ 53" by simp
  finally have e_h: "\<bar>h - H\<bar> \<le> 1040000 / 2 ^ 53" by (simp only: h_def)
  have "\<bar>h - H\<bar> \<le> 2 / 10 ^ 10" by (rule order_trans [OF e_h]) simp
  then have e_h': "\<bar>h - H\<bar> \<le> 2 / 10000000000" by simp
  have e_r: "\<bar>r - h\<bar> \<le> 1 / 20" unfolding r_def by (rule py_round_err)
  have r: "\<bar>r\<bar> \<le> 902" using e_r e_h' H by linarith
  have "\<bar>fl r - r\<bar> \<le> \<bar>r\<bar> / 2 ^ 53" by (rule fl_error)
  also have "\<dots> \<le> 902 / 2 ^ 53" using r by (simp add: divide_right_mono)
  also have "\<dots> \<le> 1 / 10000000000" by simp
  finally have "\<bar>fl r - r\<bar> \<le> 1 / 10000000000" .
  then have "\<bar>fl r - H\<bar> \<le> 1 / 20 + 1 / 1000000000" using e_r e_h' by linarith
  then have "\<bar>fl r - H\<bar> \<le> 1 / 20 + 1 / 10 ^ 9" by simp
  then show ?thesis
    by (simp only: r_def h_def p_def k55_def m_def H_def P_def M_def)
qed


lemma calculate_humidex_double_standard:
  assumes "fst (validate_sensor_values T RH None)"
    and acc: "\<forall>x. \<bar>math_exp x - exp x\<bar> \<le> exp x / 2 ^ 52"
  shows "\<exists>v k. calculate_humidex_double math_exp T RH None = Inr (v, ''standard'')
           \<and> v = fl (of_int k / 10)
           \<and> \<bar>v - (T + 0.5555 * (6.11 * exp (5417.7530 *
                 (1 / 273.15 - 1 / (T - (100 - RH) / 5 + 273.15))) - 10))\<bar>
               \<le> 1 / 20 + 1 / 10 ^ 9"
proof -
  have r: "- 50 \<le> T" "T \<le> 70" "0 \<le> RH" "RH \<le> 100"
    using assms(1) by (simp_all add: validate_sensor_values_iff)
  from standard_vapor_pressure_double_error [OF r, of math_exp] acc
  obtain vp where vp: "calculate_vapor_pressure_standard_double math_exp T RH = Inr vp"
    and e: "\<bar>vp - 6.11 * exp (5417.7530 * (1 / 273.15 - 1 / (T - (100 - RH) / 5 + 273.15)))\<bar>
               \<le> 10 ^ 6 / 2 ^ 53"
    and b: "\<bar>6.11 * exp (5417.7530 * (1 / 273.15 - 1 / (T - (100 - RH) / 5 + 273.15)))\<bar>
               \<le> 1485"
    by blast
  define h where "h = fl (T + fl (fl 0.5555 * fl (vp - 10)))"
  have c: "calculate_humidex_double math_exp T RH None = Inr (fl (py_round h 1), ''standard'')"
    by (simp add: calculate_humidex_double_def vp h_def)
  have k: "fl (py_round h 1) = fl (of_int (round_half_even (h * 10)) / 10)"
    by (simp add: py_round_def)
  from humidex_double_error [OF r(1,2) e b] c k show ?thesis
    unfolding h_def by blast
qed


subsection \<open>The standard method\<close>

lemma fl_exp_0: "fl (exp 0) = 1"
  by (simp add: fl_1)

lemma double_humidex_16_410895:
  "calculate_humidex_double (\<lambda>x. fl (exp x)) (fl 16.410895) (fl 17.945525) None
     = Inr (fl 14.2, ''standard'')"
proof -
  define T0 :: real where "T0 = 4619256287926021 / 2 ^ 48"
  define RH0 :: real where "RH0 = 5051216231435495 / 2 ^ 48"
  define D1 :: real where "D1 = 2887035179953763 / 2 ^ 45"
  define K273 :: real where "K273 = 2402652809016115 / 2 ^ 43"
  define R1 :: real where "R1 = 4220836553567077 / 2 ^ 60"
  define K6 :: real where "K6 = 6879248430808433 / 2 ^ 50"
  define M :: real where "M = - (4379750637617807 / 2 ^ 50)"
  define K55 :: real where "K55 = 5003499186008621 / 2 ^ 53"
  define P0 :: real where "P0 = - (608237869799173 / 2 ^ 48)"
  have c: "fl 16.410895 = T0" "fl 17.945525 = RH0" "fl 273.15 = K273" "fl 6.11 = K6"
    "fl 0.5555 = K55"
    unfolding T0_def RH0_def K273_def K6_def K55_def
    by (rule fl_16_410895 fl_17_945525 fl_273_15 fl_6_11 fl_0_5555)+
  have s1: "fl (100 - RH0) = D1"
    unfolding RH0_def D1_def
    using fl_eq [of "100 - 5051216231435495 / 2 ^ 48" 46 0]
    by (simp add: round_half_even_def Let_def)
  have s2: "fl (D1 / 5) = T0"
    unfolding D1_def T0_def
    using fl_eq [of "2887035179953763 / 2 ^ 45 / 5" 48 0]
    by (simp add: round_half_even_def Let_def)
  have s4: "fl (0 + K273) = K273"
    unfolding K273_def
    using fl_eq [of "0 + 2402652809016115 / 2 ^ 43" 44 0]
    by (simp add: round_half_even_def Let_def)
  have s5: "fl (1 / K273) = R1"
    unfolding K273_def R1_def
    using fl_eq [of "1 / (2402652809016115 / 2 ^ 43)" 61 0]
    by (simp add: round_half_even_def Let_def)
  have s8: "fl (K6 * 1) = K6"
    unfolding K6_def
    using fl_eq [of "6879248430808433 / 2 ^ 50 * 1" 50 0]
    by (simp add: round_half_even_def Let_def)
  have s9: "fl (K6 - 10) = M"
    unfolding K6_def M_def
    using fl_eq [of "6879248430808433 / 2 ^ 50 - 10" 51 0]
    by (simp add: round_half_even_def Let_def)
  have s10: "fl (K55 * M) = P0"
    unfolding K55_def M_def P0_def
    using fl_eq [of "5003499186008621 / 2 ^ 53 * - (4379750637617807 / 2 ^ 50)" 51 0]
    by (simp add: round_half_even_def Let_def)
  have s11: "fl (T0 + P0) = 57 / 4"
    unfolding T0_def P0_def
    using fl_eq [of "4619256287926021 / 2 ^ 48 + - (608237869799173 / 2 ^ 48)" 49 0]
    by (simp add: round_half_even_def Let_def)
  have r: "py_round (57 / 4) 1 = 14.2"
    by (simp add: py_round_def round_half_even_def Let_def)
  have k: "K273 \<noteq> 0" by (simp add: K273_def)
  have dew: "calculate_dew_point_double T0 RH0 = 0"
    unfolding calculate_dew_point_double_def
    by (simp only: s1 s2 diff_self fl_0)
  have vp: "calculate_vapor_pressure_standard_double (\<lambda>x. fl (exp x)) T0 RH0 = Inr K6"
    unfolding calculate_vapor_pressure_standard_double_def dew Let_def c
    using k
    by (simp only: s4 s5 diff_self fl_0 mult_zero_right fl_exp_0 s8 if_False)
  show ?thesis
    unfolding c calculate_humidex_double_def vp Let_def
    by (simp only: option.case sum.case prod.case s9 s10 s11 r)
qed

lemma double_humidex_at_tie:
  "calculate_humidex_double exp_double (fl 16.410895) (fl 17.945525) None
     = Inr (fl 14.2, ''standard'')"
  using double_humidex_16_410895 by (simp add: exp_double_def [abs_def])

lemma real_humidex_at_tie:
  "py_round (fl 16.410895 + 0.5555 * (6.11 * exp (5417.7530 *
      (1 / 273.15 - 1 / (fl 16.410895 - (100 - fl 17.945525) / 5 + 273.15))) - 10)) 1 = 14.3"
  unfolding fl_16_410895 fl_17_945525
  by (simp add: py_round_def round_half_even_def Let_def)

text \<open>
  The claim C7 as stated fails. Temperature \<^verbatim>\<open>16.410895\<close> and humidity
  \<^verbatim>\<open>17.945525\<close>, read as doubles, are validated. The dew point is 0 and the
  exponential 1, so \<open>T + 0.5555 * (e - 10)\<close> lies just above 14.25 and rounds to 14.3.
  In doubles the sum is 14.25 exactly, a tie, and the rounding gives the double nearest
  to 14.2, which is neither 14.3 nor the double nearest to 14.3.
\<close>

theorem standard_humidex_double_counterexample:
  "fst (validate_sensor_values (fl 16.410895) (fl 17.945525) None)
   \<and> calculate_humidex_double exp_double (fl 16.410895) (fl 17.945525) None
       = Inr (fl 14.2, ''standard'')
   \<and> py_round (fl 16.410895 + 0.5555 * (6.11 * exp (5417.7530 *
        (1 / 273.15 - 1 / (fl 16.410895 - (100 - fl 17.945525) / 5 + 273.15))) - 10)) 1 = 14.3
   \<and> fl 14.2 \<noteq> 14.3
   \<and> fl 14.2 \<noteq> fl 14.3"
proof -
  have v: "fst (validate_sensor_values (fl 16.410895) (fl 17.945525) None)"
    unfolding fl_16_410895 fl_17_945525 by (simp add: validate_sensor_values_def)
  have n: "fl 14.2 \<noteq> 14.3" unfolding fl_14_2 by simp
  have n': "fl 14.2 \<noteq> fl 14.3" unfolding fl_14_2 fl_14_3 by simp
  from v double_humidex_at_tie real_humidex_at_tie n n' show ?thesis by (intro conjI)
qed

text \<open>
  C7, amended. For every validated temperature \<open>T\<close> in Celsius and humidity \<open>RH\<close> with
  pressure absent, the computed humidex is \<open>T + 0.5555 * (e - 10)\<close> evaluated in double
  precision and rounded to one decimal place, where
  \<open>e = 6.11 * exp (5417.7530 * (1/273.15 - 1/(Td + 273.15)))\<close> and
  \<open>Td = T - (100 - RH)/5\<close>: the calculation returns, by the standard method, the double
  nearest to a multiple of one tenth, and it lies within \<open>0.05 + 10 ^ -9\<close> of the real
  value of the formula.
\<close>

theorem standard_humidex_double_within:
  assumes "fst (validate_sensor_values T RH None)"
    and "\<forall>x. \<bar>math_exp x - exp x\<bar> \<le> exp x / 2 ^ 52"
    and "Td = T - (100 - RH) / 5"
    and "e = 6.11 * exp (5417.7530 * (1 / 273.15 - 1 / (Td + 273.15)))"
  shows "\<exists>v k. calculate_humidex_double math_exp T RH None = Inr (v, ''standard'')
           \<and> v = fl (of_int k / 10)
           \<and> \<bar>v - (T + 0.5555 * (e - 10))\<bar> \<le> 1 / 20 + 1 / 10 ^ 9"
  unfolding assms(3,4) by (rule calculate_humidex_double_standard [OF assms(1,2)])

theorem standard_humidex_double_within_witness:
  "fst (validate_sensor_values 0 100 None)
   \<and> (\<forall>x. \<bar>exp_double x - exp x\<bar> \<le> exp x / 2 ^ 52)
   \<and> (\<exists>v k. calculate_humidex_double exp_double 0 100 None = Inr (v, ''standard'')
           \<and> v = fl (of_int k / 10)
           \<and> \<bar>v - (0 + 0.5555 * (6.11 * exp (5417.7530 *
                 (1 / 273.15 - 1 / (0 - (100 - 100) / 5 + 273.15))) - 10))\<bar>
               \<le> 1 / 20 + 1 / 10 ^ 9)"
proof -
  have v: "fst (validate_sensor_values 0 100 None)"
    by (simp add: validate_sensor_values_def)
  note t = standard_humidex_double_within [OF v exp_double_accurate refl refl]
  from v exp_double_accurate t show ?thesis by (intro conjI)
qed

subsection \<open>The choice of the method\<close>




end
